theory Spec2Isabelle
  imports
    Main
    "HOL-Library.AList"
    "HOL-Library.Char_ord"
    "HOL-Library.List_Lexorder"
    "HOL-Library.Monad_Syntax"
    "HOL-Library.Word"
begin

section \<open>The Kubernetes objects read by internal/k8s/configuration.go\<close>

text \<open>
  Only the fields that configuration.go reads are kept. A Go \<open>map[string]T\<close> is an
  association list read with \<^const>\<open>map_of\<close>, written with \<^const>\<open>AList.update\<close> and
  \<^const>\<open>AList.delete\<close>; a map that may be \<open>nil\<close> is an \<open>option\<close> of one. A pointer that may
  be \<open>nil\<close> is an \<open>option\<close>. Timestamps are instants on the integer line, a \<open>types.UID\<close> is
  a string, compared bytewise as Go compares strings.
\<close>

record ObjectMeta =
  Namespace :: string
  Name :: string
  Generation :: int
  CreationTimestamp :: int
  UID :: string
  Annotations :: "(string \<times> string) list option"
  Labels :: "(string \<times> string) list"

record IngressServiceBackend =
  Service_Name :: string
  Service_Port_Number :: "32 word"

record HTTPIngressPath =
  Path :: string
  Backend_Service :: "IngressServiceBackend option"

record IngressRule =
  Rule_Host :: string
  Rule_HTTP :: "HTTPIngressPath list option"

record Ingress =
  Ingress_ObjectMeta :: ObjectMeta
  Spec_Rules :: "IngressRule list"

record Action =
  Pass :: string

record Route =
  Route_Path :: string
  Route_Route :: string
  Route_Action :: "Action option"

record Upstream =
  Upstream_Name :: string
  Upstream_Service :: string
  Upstream_Port :: "16 word"

record VirtualServerListener =
  Listener_HTTP :: string
  Listener_HTTPS :: string

record VirtualServer =
  VS_ObjectMeta :: ObjectMeta
  VS_Host :: string
  VS_Listener :: "VirtualServerListener option"
  VS_Routes :: "Route list"

record VirtualServerRoute =
  VSR_ObjectMeta :: ObjectMeta
  VSR_Host :: string
  VSR_Upstreams :: "Upstream list"
  VSR_Subroutes :: "Route list"

record TransportServer =
  TS_ObjectMeta :: ObjectMeta
  TS_Listener_Name :: string
  TS_Listener_Protocol :: string
  TS_Host :: string

record Listener =
  L_Name :: string
  L_Port :: int
  L_Protocol :: string
  L_Ssl :: bool
  L_IPv4 :: string
  L_IPv6 :: string

record GlobalConfiguration =
  GC_Listeners :: "Listener list"

datatype runtime_Object =
  IngressObject Ingress
| VirtualServerObject VirtualServer
| VirtualServerRouteObject VirtualServerRoute
| TransportServerObject TransportServer

text \<open>Modelled from the spec: the constants of the packages \<open>conf_v1\<close> and \<open>nl\<close>, which
  are not part of this source file. The spec names the listener \<open>tls-passthrough\<close>, the
  protocols \<open>TLS_PASSTHROUGH\<close> and \<open>HTTP\<close>, and the closed set of reasons.\<close>

definition TLSPassthroughListenerName :: string where
  "TLSPassthroughListenerName = ''tls-passthrough''"

definition TLSPassthroughListenerProtocol :: string where
  "TLSPassthroughListenerProtocol = ''TLS_PASSTHROUGH''"

definition HTTPProtocol :: string where
  "HTTPProtocol = ''HTTP''"

definition EventReasonRejected :: string where
  "EventReasonRejected = ''Rejected''"

definition EventReasonNoIngressMasterFound :: string where
  "EventReasonNoIngressMasterFound = ''NoIngressMasterFound''"

definition EventReasonNoVirtualServerFound :: string where
  "EventReasonNoVirtualServerFound = ''NoVirtualServerFound''"

definition EventReasonIgnored :: string where
  "EventReasonIgnored = ''Ignored''"

definition ingressKind :: string where
  "ingressKind = ''Ingress''"

definition virtualServerKind :: string where
  "virtualServerKind = ''VirtualServer''"

definition virtualServerRouteKind :: string where
  "virtualServerRouteKind = ''VirtualServerRoute''"

definition transportServerKind :: string where
  "transportServerKind = ''TransportServer''"

section \<open>Resources, changes and problems\<close>

datatype Operation = Delete | AddOrUpdate

record MinionConfiguration =
  Minion_Ingress :: Ingress
  ValidPaths :: "(string \<times> bool) list"

record IngressConfiguration =
  IC_Ingress :: Ingress
  IsMaster :: bool
  Minions :: "MinionConfiguration list"
  ValidHosts :: "(string \<times> bool) list"
  IC_Warnings :: "string list"
  ChildWarnings :: "(string \<times> string list) list"

record VirtualServerConfiguration =
  VSC_VirtualServer :: VirtualServer
  VirtualServerRoutes :: "VirtualServerRoute list"
  VSC_Warnings :: "string list"
  HTTPPort :: int
  HTTPSPort :: int
  HTTPIPv4 :: string
  HTTPIPv6 :: string
  HTTPSIPv4 :: string
  HTTPSIPv6 :: string

record TransportServerConfiguration =
  ListenerPort :: int
  TSC_IPv4 :: string
  TSC_IPv6 :: string
  TSC_TransportServer :: TransportServer
  TSC_Warnings :: "string list"

text \<open>The interface \<open>Resource\<close> has three implementations.\<close>

datatype Resource =
  IC IngressConfiguration
| VSC VirtualServerConfiguration
| TSC TransportServerConfiguration

record ResourceChange =
  Op :: Operation
  Resource :: Resource
  Error :: string

record ConfigurationProblem =
  Object :: runtime_Object
  IsError :: bool
  Reason :: string
  Message :: string

record listenerHostKey =
  ListenerName :: string
  Host :: string

definition chooseObjectMetaWinner :: "ObjectMeta \<Rightarrow> ObjectMeta \<Rightarrow> bool" where
  "chooseObjectMetaWinner meta1 meta2 =
     (if CreationTimestamp meta1 = CreationTimestamp meta2
      then UID meta2 < UID meta1
      else CreationTimestamp meta1 < CreationTimestamp meta2)"

definition compareConfigurationProblems ::
  "ConfigurationProblem \<Rightarrow> ConfigurationProblem \<Rightarrow> bool" where
  "compareConfigurationProblems problem1 problem2 =
     (IsError problem1 = IsError problem2 \<and>
      Reason problem1 = Reason problem2 \<and>
      Message problem1 = Message problem2)"

definition listenerHostKey_String :: "listenerHostKey \<Rightarrow> string" where
  "listenerHostKey_String lhk = ListenerName lhk @ ''|'' @ Host lhk"

definition getResourceKey :: "ObjectMeta \<Rightarrow> string" where
  "getResourceKey meta = Namespace meta @ ''/'' @ Name meta"

definition getResourceKeyWithKind :: "string \<Rightarrow> ObjectMeta \<Rightarrow> string" where
  "getResourceKeyWithKind kind objectMeta =
     kind @ ''/'' @ Namespace objectMeta @ ''/'' @ Name objectMeta"

definition NewRegularIngressConfiguration :: "Ingress \<Rightarrow> IngressConfiguration" where
  "NewRegularIngressConfiguration ing =
     \<lparr>IC_Ingress = ing, IsMaster = False, Minions = [], ValidHosts = [],
      IC_Warnings = [], ChildWarnings = []\<rparr>"

definition NewMasterIngressConfiguration ::
  "Ingress \<Rightarrow> MinionConfiguration list \<Rightarrow> (string \<times> string list) list \<Rightarrow> IngressConfiguration" where
  "NewMasterIngressConfiguration ing minions childWarnings =
     \<lparr>IC_Ingress = ing, IsMaster = True, Minions = minions, ValidHosts = [],
      IC_Warnings = [], ChildWarnings = childWarnings\<rparr>"

definition NewMinionConfiguration :: "Ingress \<Rightarrow> MinionConfiguration" where
  "NewMinionConfiguration ing = \<lparr>Minion_Ingress = ing, ValidPaths = []\<rparr>"

definition NewVirtualServerConfiguration ::
  "VirtualServer \<Rightarrow> VirtualServerRoute list \<Rightarrow> string list \<Rightarrow> VirtualServerConfiguration" where
  "NewVirtualServerConfiguration vs vsrs warnings =
     \<lparr>VSC_VirtualServer = vs, VirtualServerRoutes = vsrs, VSC_Warnings = warnings,
      HTTPPort = 0, HTTPSPort = 0, HTTPIPv4 = [], HTTPIPv6 = [],
      HTTPSIPv4 = [], HTTPSIPv6 = []\<rparr>"

definition NewTransportServerConfiguration :: "TransportServer \<Rightarrow> TransportServerConfiguration" where
  "NewTransportServerConfiguration ts =
     \<lparr>ListenerPort = 0, TSC_IPv4 = [], TSC_IPv6 = [], TSC_TransportServer = ts,
      TSC_Warnings = []\<rparr>"

fun GetObjectMeta :: "Resource \<Rightarrow> ObjectMeta" where
  "GetObjectMeta (IC ic) = Ingress_ObjectMeta (IC_Ingress ic)"
| "GetObjectMeta (VSC vsc) = VS_ObjectMeta (VSC_VirtualServer vsc)"
| "GetObjectMeta (TSC tsc) = TS_ObjectMeta (TSC_TransportServer tsc)"

fun GetKeyWithKind :: "Resource \<Rightarrow> string" where
  "GetKeyWithKind (IC ic) =
     ingressKind @ ''/'' @ getResourceKey (Ingress_ObjectMeta (IC_Ingress ic))"
| "GetKeyWithKind (VSC vsc) =
     virtualServerKind @ ''/'' @ getResourceKey (VS_ObjectMeta (VSC_VirtualServer vsc))"
| "GetKeyWithKind (TSC tsc) =
     transportServerKind @ ''/'' @ getResourceKey (TS_ObjectMeta (TSC_TransportServer tsc))"

text \<open>The three \<open>Wins\<close> methods have the same body.\<close>

definition Wins :: "Resource \<Rightarrow> Resource \<Rightarrow> bool" where
  "Wins r resource = chooseObjectMetaWinner (GetObjectMeta r) (GetObjectMeta resource)"

fun AddWarning :: "string \<Rightarrow> Resource \<Rightarrow> Resource" where
  "AddWarning warning (IC ic) = IC (ic\<lparr>IC_Warnings := IC_Warnings ic @ [warning]\<rparr>)"
| "AddWarning warning (VSC vsc) = VSC (vsc\<lparr>VSC_Warnings := VSC_Warnings vsc @ [warning]\<rparr>)"
| "AddWarning warning (TSC tsc) = TSC (tsc\<lparr>TSC_Warnings := TSC_Warnings tsc @ [warning]\<rparr>)"

fun Warnings :: "Resource \<Rightarrow> string list" where
  "Warnings (IC ic) = IC_Warnings ic"
| "Warnings (VSC vsc) = VSC_Warnings vsc"
| "Warnings (TSC tsc) = TSC_Warnings tsc"

definition compareObjectMetas :: "ObjectMeta \<Rightarrow> ObjectMeta \<Rightarrow> bool" where
  "compareObjectMetas meta1 meta2 =
     (Namespace meta1 = Namespace meta2 \<and>
      Name meta1 = Name meta2 \<and>
      Generation meta1 = Generation meta2)"

text \<open>\<open>reflect.DeepEqual\<close> on two maps that are not \<open>nil\<close>: the same keys with the same
  values. On maps that may be \<open>nil\<close>, a \<open>nil\<close> map equals only a \<open>nil\<close> map.\<close>

definition DeepEqual_map :: "('k \<times> 'v) list \<Rightarrow> ('k \<times> 'v) list \<Rightarrow> bool" where
  "DeepEqual_map m1 m2 =
     list_all (\<lambda>k. map_of m1 k = map_of m2 k) (map fst m1 @ map fst m2)"

fun DeepEqual_nilmap :: "('k \<times> 'v) list option \<Rightarrow> ('k \<times> 'v) list option \<Rightarrow> bool" where
  "DeepEqual_nilmap None None = True"
| "DeepEqual_nilmap (Some m1) (Some m2) = DeepEqual_map m1 m2"
| "DeepEqual_nilmap _ _ = False"

definition compareObjectMetasWithAnnotations :: "ObjectMeta \<Rightarrow> ObjectMeta \<Rightarrow> bool" where
  "compareObjectMetasWithAnnotations meta1 meta2 =
     (compareObjectMetas meta1 meta2 \<and>
      DeepEqual_nilmap (Annotations meta1) (Annotations meta2))"

text \<open>\<open>IsEqual\<close>: the type assertion on the argument fails for a resource of another
  kind. The loops over \<open>Minions\<close> and \<open>VirtualServerRoutes\<close> compare position by position,
  after the test on the lengths.\<close>

fun IsEqual :: "Resource \<Rightarrow> Resource \<Rightarrow> bool" where
  "IsEqual (IC ic) (IC ingConfig) =
     (compareObjectMetasWithAnnotations (Ingress_ObjectMeta (IC_Ingress ic))
         (Ingress_ObjectMeta (IC_Ingress ingConfig)) \<and>
      DeepEqual_map (ValidHosts ic) (ValidHosts ingConfig) \<and>
      IsMaster ic = IsMaster ingConfig \<and>
      length (Minions ic) = length (Minions ingConfig) \<and>
      list_all2 (\<lambda>m1 m2. compareObjectMetasWithAnnotations
                   (Ingress_ObjectMeta (Minion_Ingress m1))
                   (Ingress_ObjectMeta (Minion_Ingress m2)))
        (Minions ic) (Minions ingConfig))"
| "IsEqual (VSC vsc) (VSC vsConfig) =
     (compareObjectMetas (VS_ObjectMeta (VSC_VirtualServer vsc))
         (VS_ObjectMeta (VSC_VirtualServer vsConfig)) \<and>
      length (VirtualServerRoutes vsc) = length (VirtualServerRoutes vsConfig) \<and>
      list_all2 (\<lambda>r1 r2. compareObjectMetas (VSR_ObjectMeta r1) (VSR_ObjectMeta r2))
        (VirtualServerRoutes vsc) (VirtualServerRoutes vsConfig))"
| "IsEqual (TSC tsc) (TSC tsConfig) =
     (compareObjectMetas (TS_ObjectMeta (TSC_TransportServer tsc))
         (TS_ObjectMeta (TSC_TransportServer tsConfig)) \<and>
      ListenerPort tsc = ListenerPort tsConfig)"
| "IsEqual _ _ = False"

section \<open>Sorted iteration over maps\<close>

text \<open>The functions \<open>getSortedIngressKeys\<close>, \<open>getSortedVirtualServerKeys\<close>,
  \<open>getSortedVirtualServerRouteKeys\<close>, \<open>getSortedTransportServerKeys\<close>,
  \<open>getSortedProblemKeys\<close> and \<open>getSortedResourceKeys\<close> have the same body: the keys of the
  map, sorted by \<open>sort.Strings\<close>.\<close>

definition getSortedKeys :: "(string \<times> 'v) list \<Rightarrow> string list" where
  "getSortedKeys m = sort (remdups (map fst m))"

definition getSortedListenerHostKeys :: "(listenerHostKey \<times> 'v) list \<Rightarrow> listenerHostKey list" where
  "getSortedListenerHostKeys m = sort_key listenerHostKey_String (remdups (map fst m))"

section \<open>Change detection\<close>

text \<open>The third loop of \<open>detectChangesInHosts\<close> appends a host once when the resources
  differ, and otherwise up to three times for two VirtualServerConfigurations: for the
  ports, for \<open>HTTPIPv4\<close> and for \<open>HTTPIPv6\<close>.\<close>

definition updatedEntries :: "Resource \<Rightarrow> Resource \<Rightarrow> string \<Rightarrow> string list" where
  "updatedEntries oldR newR h =
     (if \<not> IsEqual oldR newR then [h]
      else case (newR, oldR) of
        (VSC newVsc, VSC oldVsc) \<Rightarrow>
          (if HTTPPort newVsc \<noteq> HTTPPort oldVsc \<or> HTTPSPort newVsc \<noteq> HTTPSPort oldVsc
           then [h] else []) @
          (if HTTPIPv4 newVsc \<noteq> HTTPIPv4 oldVsc then [h] else []) @
          (if HTTPIPv6 newVsc \<noteq> HTTPIPv6 oldVsc then [h] else [])
      | _ \<Rightarrow> [])"

definition detectChangesInHosts ::
  "(string \<times> Resource) list \<Rightarrow> (string \<times> Resource) list \<Rightarrow>
   string list \<times> string list \<times> string list" where
  "detectChangesInHosts oldHosts newHosts =
     (let removedHosts = filter (\<lambda>h. map_of newHosts h = None) (getSortedKeys oldHosts);
          addedHosts = filter (\<lambda>h. map_of oldHosts h = None) (getSortedKeys newHosts);
          updatedHosts = concat (map (\<lambda>h.
             case map_of oldHosts h of
               None \<Rightarrow> []
             | Some oldR \<Rightarrow>
                 (case map_of newHosts h of
                    None \<Rightarrow> []
                  | Some newR \<Rightarrow> updatedEntries oldR newR h))
             (getSortedKeys newHosts))
      in (removedHosts, updatedHosts, addedHosts))"

definition detectChangesInListenerHosts ::
  "(listenerHostKey \<times> TransportServerConfiguration) list \<Rightarrow>
   (listenerHostKey \<times> TransportServerConfiguration) list \<Rightarrow>
   listenerHostKey list \<times> listenerHostKey list \<times> listenerHostKey list" where
  "detectChangesInListenerHosts oldListenerHosts newListenerHosts =
     (let oldKeys = getSortedListenerHostKeys oldListenerHosts;
          newKeys = getSortedListenerHostKeys newListenerHosts;
          removedListenerHosts = filter (\<lambda>key. map_of newListenerHosts key = None) oldKeys;
          addedListenerHosts = filter (\<lambda>key. map_of oldListenerHosts key = None) newKeys;
          updatedListenerHosts = filter (\<lambda>key.
             case map_of oldListenerHosts key of
               None \<Rightarrow> False
             | Some oldConfig \<Rightarrow>
                 (case map_of newListenerHosts key of
                    None \<Rightarrow> False
                  | Some newConfig \<Rightarrow> \<not> IsEqual (TSC oldConfig) (TSC newConfig))) newKeys
      in (removedListenerHosts, updatedListenerHosts, addedListenerHosts))"

text \<open>\<open>createResourceChangesForHosts\<close> and \<open>createResourceChangesForListeners\<close> have the
  same body, over maps with different keys. Reading a key that the map does not hold
  gives a \<open>nil\<close> resource, whose \<open>GetKeyWithKind\<close> panics: the result \<open>None\<close>.\<close>

definition deleteChange :: "Resource \<Rightarrow> ResourceChange" where
  "deleteChange r = \<lparr>Op = Delete, Resource = r, Error = []\<rparr>"

definition addOrUpdateChange :: "Resource \<Rightarrow> ResourceChange" where
  "addOrUpdateChange r = \<lparr>Op = AddOrUpdate, Resource = r, Error = []\<rparr>"

fun removedChanges :: "'k list \<Rightarrow> ('k \<times> Resource) list \<Rightarrow> ResourceChange list option" where
  "removedChanges [] oldHosts = Some []"
| "removedChanges (h # hs) oldHosts =
     do { r \<leftarrow> map_of oldHosts h;
          rest \<leftarrow> removedChanges hs oldHosts;
          Some (deleteChange r # rest) }"

fun updatedChanges ::
  "'k list \<Rightarrow> ('k \<times> Resource) list \<Rightarrow> ('k \<times> Resource) list \<Rightarrow>
   (ResourceChange list \<times> ResourceChange list) option" where
  "updatedChanges [] oldHosts newHosts = Some ([], [])"
| "updatedChanges (h # hs) oldHosts newHosts =
     do { oldR \<leftarrow> map_of oldHosts h;
          newR \<leftarrow> map_of newHosts h;
          (deleteChanges, changes) \<leftarrow> updatedChanges hs oldHosts newHosts;
          Some ((if GetKeyWithKind oldR \<noteq> GetKeyWithKind newR then [deleteChange oldR] else [])
                  @ deleteChanges,
                addOrUpdateChange newR # changes) }"

fun addedChanges :: "'k list \<Rightarrow> ('k \<times> Resource) list \<Rightarrow> ResourceChange list option" where
  "addedChanges [] newHosts = Some []"
| "addedChanges (h # hs) newHosts =
     do { r \<leftarrow> map_of newHosts h;
          rest \<leftarrow> addedChanges hs newHosts;
          Some (addOrUpdateChange r # rest) }"

definition createResourceChanges ::
  "'k list \<Rightarrow> 'k list \<Rightarrow> 'k list \<Rightarrow> ('k \<times> Resource) list \<Rightarrow> ('k \<times> Resource) list \<Rightarrow>
   ResourceChange list option" where
  "createResourceChanges removed updated added old new =
     do { deleteChanges1 \<leftarrow> removedChanges removed old;
          (deleteChanges2, changes2) \<leftarrow> updatedChanges updated old new;
          changes3 \<leftarrow> addedChanges added new;
          Some ((deleteChanges1 @ deleteChanges2) @ (changes2 @ changes3)) }"

definition createResourceChangesForHosts ::
  "string list \<Rightarrow> string list \<Rightarrow> string list \<Rightarrow>
   (string \<times> Resource) list \<Rightarrow> (string \<times> Resource) list \<Rightarrow> ResourceChange list option" where
  "createResourceChangesForHosts removedHosts updatedHosts addedHosts oldHosts newHosts =
     createResourceChanges removedHosts updatedHosts addedHosts oldHosts newHosts"

definition createResourceChangesForListeners ::
  "listenerHostKey list \<Rightarrow> listenerHostKey list \<Rightarrow> listenerHostKey list \<Rightarrow>
   (listenerHostKey \<times> TransportServerConfiguration) list \<Rightarrow>
   (listenerHostKey \<times> TransportServerConfiguration) list \<Rightarrow> ResourceChange list option" where
  "createResourceChangesForListeners removedListeners updatedListeners addedListeners
       oldListeners newListeners =
     createResourceChanges removedListeners updatedListeners addedListeners
       (map (\<lambda>(l, tsc). (l, TSC tsc)) oldListeners)
       (map (\<lambda>(l, tsc). (l, TSC tsc)) newListeners)"

subsection \<open>squashResourceChanges\<close>

definition changesPerResourceOf :: "ResourceChange list \<Rightarrow> (string \<times> ResourceChange list) list" where
  "changesPerResourceOf changes =
     fold (\<lambda>c m. AList.update (GetKeyWithKind (Resource c))
                    ((case map_of m (GetKeyWithKind (Resource c)) of None \<Rightarrow> [] | Some cs \<Rightarrow> cs) @ [c]) m)
       changes []"

fun squashLoop ::
  "ResourceChange list \<Rightarrow> (string \<times> ResourceChange list) list \<Rightarrow>
   ResourceChange list \<Rightarrow> ResourceChange list \<Rightarrow> ResourceChange list \<times> ResourceChange list" where
  "squashLoop [] changesPerResource deletes updates = (deletes, updates)"
| "squashLoop (c # cs) changesPerResource deletes updates =
     (let key = GetKeyWithKind (Resource c) in
      case map_of changesPerResource key of
        None \<Rightarrow> squashLoop cs changesPerResource deletes updates
      | Some resChanges \<Rightarrow>
          (let squashedChanged = last resChanges in
           if Op squashedChanged = Delete
           then squashLoop cs (AList.delete key changesPerResource)
                  (deletes @ [squashedChanged]) updates
           else squashLoop cs (AList.delete key changesPerResource)
                  deletes (updates @ [squashedChanged])))"

definition squashResourceChanges :: "ResourceChange list \<Rightarrow> ResourceChange list" where
  "squashResourceChanges changes =
     (case squashLoop changes (changesPerResourceOf changes) [] [] of
        (deletes, updates) \<Rightarrow> deletes @ updates)"

subsection \<open>detectChangesInProblems\<close>

definition detectChangesInProblems ::
  "(string \<times> ConfigurationProblem) list \<Rightarrow> (string \<times> ConfigurationProblem) list \<Rightarrow>
   ConfigurationProblem list" where
  "detectChangesInProblems newProblems oldProblems =
     concat (map (\<lambda>key.
        case map_of newProblems key of
          None \<Rightarrow> []
        | Some newP \<Rightarrow>
            (case map_of oldProblems key of
               None \<Rightarrow> [newP]
             | Some oldP \<Rightarrow> if \<not> compareConfigurationProblems newP oldP then [newP] else []))
       (getSortedKeys newProblems))"

section \<open>The Configuration\<close>

text \<open>The fields of \<open>Configuration\<close> that \<open>NewConfiguration\<close> sets once and for all (the
  ingress-class predicate, the validators, the switches) are collected in \<open>Env\<close>, together
  with the helpers \<open>validateIngress\<close>, \<open>isMinion\<close> and \<open>isMaster\<close> of the package, which
  are not part of this source file and are taken as parameters. A validator returns the
  message of its error, or \<open>None\<close> for \<open>nil\<close>.\<close>

record Env =
  hasCorrectIngressClass :: "runtime_Object \<Rightarrow> bool"
  validateIngress :: "Ingress \<Rightarrow> string option"
  ValidateVirtualServer :: "VirtualServer \<Rightarrow> string option"
  ValidateVirtualServerRoute :: "VirtualServerRoute \<Rightarrow> string option"
  ValidateVirtualServerRouteForVirtualServer ::
    "VirtualServerRoute \<Rightarrow> string \<Rightarrow> string \<Rightarrow> string option"
  ValidateTransportServer :: "TransportServer \<Rightarrow> string option"
  ValidateGlobalConfiguration :: "GlobalConfiguration \<Rightarrow> string option"
  isMinion :: "Ingress \<Rightarrow> bool"
  isMaster :: "Ingress \<Rightarrow> bool"
  isTLSPassthroughEnabled :: bool
  isCertManagerEnabled :: bool

record Configuration =
  hosts :: "(string \<times> Resource) list"
  listenerHosts :: "(listenerHostKey \<times> TransportServerConfiguration) list"
  listenerMap :: "(string \<times> Listener) list"
  ingresses :: "(string \<times> Ingress) list"
  virtualServers :: "(string \<times> VirtualServer) list"
  virtualServerRoutes :: "(string \<times> VirtualServerRoute) list"
  transportServers :: "(string \<times> TransportServer) list"
  globalConfiguration :: "GlobalConfiguration option"
  hostProblems :: "(string \<times> ConfigurationProblem) list"
  listenerProblems :: "(string \<times> ConfigurationProblem) list"

definition NewConfiguration :: Configuration where
  "NewConfiguration =
     \<lparr>hosts = [], listenerHosts = [], listenerMap = [], ingresses = [], virtualServers = [],
      virtualServerRoutes = [], transportServers = [], globalConfiguration = None,
      hostProblems = [], listenerProblems = []\<rparr>"

definition setGlobalConfigListenerMap :: "Configuration \<Rightarrow> Configuration" where
  "setGlobalConfigListenerMap c =
     c\<lparr>listenerMap :=
         (case globalConfiguration c of
            None \<Rightarrow> []
          | Some gc \<Rightarrow> fold (\<lambda>listener m. AList.update (L_Name listener) listener m)
                        (GC_Listeners gc) [])\<rparr>"

section \<open>Listener arbitration\<close>

text \<open>
  The maps built during a rebuild hold pointers to the derived configurations, and
  \<open>AddWarning\<close> on the holder of a key changes the object that the other map holds too.
  In the model a pointer to a TransportServerConfiguration of the listener rebuild is the
  key of \<open>newTSConfigs\<close> under which it is stored: \<open>newListenerHosts\<close> maps a listener and
  host to that key, and \<open>resolveListenerHosts\<close> reads the objects when the rebuild is
  over. Reading through a pointer that \<open>newTSConfigs\<close> does not hold is the result \<open>None\<close>,
  as every panic of the Go code is.

  Go ranges over \<open>c.transportServers\<close> in an unspecified order; the model takes the keys
  in sorted order.
\<close>

definition addWarningAt :: "'k \<Rightarrow> string \<Rightarrow> ('k \<times> Resource) list \<Rightarrow> ('k \<times> Resource) list" where
  "addWarningAt key warning resources =
     (case map_of resources key of
        None \<Rightarrow> resources
      | Some r \<Rightarrow> AList.update key (AddWarning warning r) resources)"

definition addTSWarningAt ::
  "string \<Rightarrow> string \<Rightarrow> (string \<times> TransportServerConfiguration) list \<Rightarrow>
   (string \<times> TransportServerConfiguration) list" where
  "addTSWarningAt key warning tsConfigs =
     (case map_of tsConfigs key of
        None \<Rightarrow> tsConfigs
      | Some tsc \<Rightarrow> AList.update key (tsc\<lparr>TSC_Warnings := TSC_Warnings tsc @ [warning]\<rparr>) tsConfigs)"

definition findListener :: "Listener list \<Rightarrow> TransportServer \<Rightarrow> Listener option" where
  "findListener listeners ts =
     find (\<lambda>l. TS_Listener_Name ts = L_Name l \<and> TS_Listener_Protocol ts = L_Protocol l) listeners"

definition buildListenerStep ::
  "Configuration \<Rightarrow> string \<Rightarrow>
   (listenerHostKey \<times> string) list \<times> (string \<times> TransportServerConfiguration) list \<Rightarrow>
   ((listenerHostKey \<times> string) list \<times> (string \<times> TransportServerConfiguration) list) option" where
  "buildListenerStep c key st =
     (case st of (newListenerHosts, newTSConfigs) \<Rightarrow>
      do { ts \<leftarrow> map_of (transportServers c) key;
           if TS_Listener_Protocol ts = TLSPassthroughListenerProtocol then Some st
           else
             (let tsc = NewTransportServerConfiguration ts;
                  newTSConfigs1 = AList.update key tsc newTSConfigs in
              case globalConfiguration c of
                None \<Rightarrow> Some (newListenerHosts, newTSConfigs1)
              | Some gc \<Rightarrow>
                  (case findListener (GC_Listeners gc) ts of
                     None \<Rightarrow> Some (newListenerHosts, newTSConfigs1)
                   | Some listener \<Rightarrow>
                       (let tsc2 = tsc\<lparr>ListenerPort := L_Port listener,
                                        TSC_IPv4 := L_IPv4 listener,
                                        TSC_IPv6 := L_IPv6 listener\<rparr>;
                            newTSConfigs2 = AList.update key tsc2 newTSConfigs;
                            host = TS_Host ts;
                            listenerKey = \<lparr>ListenerName = L_Name listener, Host = host\<rparr> in
                        case map_of newListenerHosts listenerKey of
                          None \<Rightarrow> Some (AList.update listenerKey key newListenerHosts, newTSConfigs2)
                        | Some holderPtr \<Rightarrow>
                            do { holder \<leftarrow> map_of newTSConfigs2 holderPtr;
                                 let warning = ''listener '' @ L_Name listener @ '' and host '' @ host
                                                 @ '' are taken by another resource'';
                                 if \<not> Wins (TSC holder) (TSC tsc2)
                                 then Some (AList.update listenerKey key newListenerHosts,
                                            addTSWarningAt holderPtr warning newTSConfigs2)
                                 else Some (newListenerHosts,
                                            addTSWarningAt key warning newTSConfigs2) }))) })"

fun buildListenerLoop ::
  "Configuration \<Rightarrow> string list \<Rightarrow>
   (listenerHostKey \<times> string) list \<times> (string \<times> TransportServerConfiguration) list \<Rightarrow>
   ((listenerHostKey \<times> string) list \<times> (string \<times> TransportServerConfiguration) list) option" where
  "buildListenerLoop c [] st = Some st"
| "buildListenerLoop c (key # keys) st =
     do { st1 \<leftarrow> buildListenerStep c key st; buildListenerLoop c keys st1 }"

definition buildListenerHostsAndTSConfigurations ::
  "Configuration \<Rightarrow>
   ((listenerHostKey \<times> string) list \<times> (string \<times> TransportServerConfiguration) list) option" where
  "buildListenerHostsAndTSConfigurations c =
     buildListenerLoop c (getSortedKeys (transportServers c)) ([], [])"

fun resolvePointers :: "('k \<times> 'p) list \<Rightarrow> ('p \<times> 'v) list \<Rightarrow> ('k \<times> 'v) list option" where
  "resolvePointers [] objects = Some []"
| "resolvePointers ((k, ptr) # rest) objects =
     do { v \<leftarrow> map_of objects ptr;
          rest1 \<leftarrow> resolvePointers rest objects;
          Some ((k, v) # rest1) }"

definition listenerProblem :: "TransportServer \<Rightarrow> string \<Rightarrow> ConfigurationProblem" where
  "listenerProblem ts message =
     \<lparr>Object = TransportServerObject ts, IsError = False, Reason = EventReasonRejected,
      Message = message\<rparr>"

definition addProblemForTSConfig ::
  "(listenerHostKey \<times> TransportServerConfiguration) list \<Rightarrow> TransportServerConfiguration \<Rightarrow>
   (string \<times> ConfigurationProblem) list \<Rightarrow> (string \<times> ConfigurationProblem) list" where
  "addProblemForTSConfig c_listenerHosts tsc problems =
     (let listenerName = TS_Listener_Name (TSC_TransportServer tsc);
          host = TS_Host (TSC_TransportServer tsc);
          hostDescription = (if host \<noteq> [] then host else ''empty host'');
          key = \<lparr>ListenerName = listenerName, Host = host\<rparr> in
      case map_of c_listenerHosts key of
        None \<Rightarrow>
          AList.update (GetKeyWithKind (TSC tsc))
            (listenerProblem (TSC_TransportServer tsc)
               (''Listener '' @ listenerName @ '' doesn'' @ [CHR 0x27] @ ''t exist''))
            problems
      | Some holder \<Rightarrow>
          if \<not> IsEqual (TSC tsc) (TSC holder)
          then AList.update (GetKeyWithKind (TSC tsc))
                 (listenerProblem (TSC_TransportServer tsc)
                    (''Listener '' @ listenerName @ '' with host '' @ hostDescription
                       @ '' is taken by another resource''))
                 problems
          else problems)"

definition addProblemsForTSConfigsWithoutActiveListener ::
  "(listenerHostKey \<times> TransportServerConfiguration) list \<Rightarrow>
   (string \<times> TransportServerConfiguration) list \<Rightarrow>
   (string \<times> ConfigurationProblem) list \<Rightarrow> (string \<times> ConfigurationProblem) list" where
  "addProblemsForTSConfigsWithoutActiveListener c_listenerHosts tsConfigs problems =
     fold (\<lambda>(k, tsc) ps. addProblemForTSConfig c_listenerHosts tsc ps) tsConfigs problems"

text \<open>After the squash, \<open>rebuildListenerHosts\<close> looks each change up in \<open>newTSConfigs\<close>
  under \<open>GetKeyWithKind\<close>, while \<open>newTSConfigs\<close> is keyed by namespace and name.\<close>

definition freshenChanges ::
  "(string \<times> Resource) list \<Rightarrow> ResourceChange list \<Rightarrow> ResourceChange list" where
  "freshenChanges newResources changes =
     map (\<lambda>ch. case map_of newResources (GetKeyWithKind (Resource ch)) of
                  None \<Rightarrow> ch
                | Some r \<Rightarrow> ch\<lparr>Resource := r\<rparr>) changes"

definition rebuildListenerHosts ::
  "Configuration \<Rightarrow> (ResourceChange list \<times> ConfigurationProblem list \<times> Configuration) option" where
  "rebuildListenerHosts c =
     do { (newListenerHostPtrs, newTSConfigs) \<leftarrow> buildListenerHostsAndTSConfigurations c;
          newListenerHosts \<leftarrow> resolvePointers newListenerHostPtrs newTSConfigs;
          (removedListenerHosts, updatedListenerHosts, addedListenerHosts) \<leftarrow>
             Some (detectChangesInListenerHosts (listenerHosts c) newListenerHosts);
          changes \<leftarrow> createResourceChangesForListeners removedListenerHosts updatedListenerHosts
                       addedListenerHosts (listenerHosts c) newListenerHosts;
          let changes1 = squashResourceChanges changes;
          let changes2 = freshenChanges (map (\<lambda>(k, tsc). (k, TSC tsc)) newTSConfigs) changes1;
          let newProblems =
                addProblemsForTSConfigsWithoutActiveListener newListenerHosts newTSConfigs [];
          let newOrUpdatedProblems = detectChangesInProblems newProblems (listenerProblems c);
          Some (changes2, newOrUpdatedProblems,
                c\<lparr>listenerHosts := newListenerHosts, listenerProblems := newProblems\<rparr>) }"

section \<open>Host arbitration\<close>

text \<open>
  In the host rebuild a pointer to a derived resource is the key of \<open>newResources\<close> under
  which \<open>buildHostsAndResources\<close> stores it, its \<open>GetKeyWithKind\<close>: \<open>newHosts\<close> maps a
  host to that key while the rebuild runs. The stored objects of one kind have different
  keys, since the mutators store every object under its namespace and name.
\<close>

definition isChallengeIngress :: "Env \<Rightarrow> Ingress \<Rightarrow> bool" where
  "isChallengeIngress env ing =
     (if \<not> isCertManagerEnabled env then False
      else map_of (Labels (Ingress_ObjectMeta ing)) ''acme.cert-manager.io/http01-solver''
             = Some ''true'')"

definition isChallengeIngressOwnerVs :: "Configuration \<Rightarrow> string \<Rightarrow> bool" where
  "isChallengeIngressOwnerVs c host =
     list_ex (\<lambda>key. case map_of (virtualServers c) key of
                      None \<Rightarrow> False
                    | Some vs \<Rightarrow> host = VS_Host vs)
       (getSortedKeys (virtualServers c))"

definition challengeVSR ::
  "Ingress \<Rightarrow> IngressRule \<Rightarrow> HTTPIngressPath \<Rightarrow> IngressServiceBackend \<Rightarrow> VirtualServerRoute" where
  "challengeVSR ing rule path0 service =
     \<lparr>VSR_ObjectMeta =
        \<lparr>Namespace = Namespace (Ingress_ObjectMeta ing), Name = Name (Ingress_ObjectMeta ing),
         Generation = 0, CreationTimestamp = 0, UID = [], Annotations = None, Labels = []\<rparr>,
      VSR_Host = Rule_Host rule,
      VSR_Upstreams =
        [\<lparr>Upstream_Name = ''challenge'',
          Upstream_Service = Service_Name service,
          Upstream_Port = ucast (Service_Port_Number service)\<rparr>],
      VSR_Subroutes =
        [\<lparr>Route_Path = Path path0, Route_Route = [],
          Route_Action = Some \<lparr>Pass = ''challenge''\<rparr>\<rparr>]\<rparr>"

text \<open>\<open>convertIngressToVSR\<close>: \<open>None\<close> is a panic (no rule, no \<open>HTTP\<close> value, no path or
  no service backend), \<open>Some None\<close> the result \<open>nil\<close>.\<close>

definition convertIngressToVSR :: "Configuration \<Rightarrow> Ingress \<Rightarrow> VirtualServerRoute option option" where
  "convertIngressToVSR c ing =
     (case Spec_Rules ing of
        [] \<Rightarrow> None
      | rule # _ \<Rightarrow>
          if \<not> isChallengeIngressOwnerVs c (Rule_Host rule) then Some None
          else
            (case Rule_HTTP rule of
               None \<Rightarrow> None
             | Some paths \<Rightarrow>
                 (case paths of
                    [] \<Rightarrow> None
                  | path0 # _ \<Rightarrow>
                      (case Backend_Service path0 of
                         None \<Rightarrow> None
                       | Some service \<Rightarrow> Some (Some (challengeVSR ing rule path0 service))))))"

subsection \<open>buildMinionConfigs\<close>

text \<open>The map \<open>paths\<close> holds pointers to the minion configurations: in the model, their
  positions in \<open>minionConfigs\<close>. The configuration of the minion being processed is put at
  the end of the list before its paths are read, where the Go code appends it after.\<close>

definition setValidPath ::
  "nat \<Rightarrow> string \<Rightarrow> bool \<Rightarrow> MinionConfiguration list \<Rightarrow> MinionConfiguration list" where
  "setValidPath i path v minionConfigs =
     (if i < length minionConfigs
      then minionConfigs[i := (minionConfigs ! i)
             \<lparr>ValidPaths := AList.update path v (ValidPaths (minionConfigs ! i))\<rparr>]
      else minionConfigs)"

definition appendChildWarning ::
  "string \<Rightarrow> string \<Rightarrow> (string \<times> string list) list \<Rightarrow> (string \<times> string list) list" where
  "appendChildWarning key warning childWarnings =
     AList.update key
       ((case map_of childWarnings key of None \<Rightarrow> [] | Some ws \<Rightarrow> ws) @ [warning])
       childWarnings"

fun minionPaths ::
  "HTTPIngressPath list \<Rightarrow> nat \<Rightarrow> Ingress \<Rightarrow>
   (string \<times> nat) list \<times> MinionConfiguration list \<times> (string \<times> string list) list \<Rightarrow>
   ((string \<times> nat) list \<times> MinionConfiguration list \<times> (string \<times> string list) list) option" where
  "minionPaths [] i ingress st = Some st"
| "minionPaths (p # ps) i ingress (paths, minionConfigs, childWarnings) =
     (case map_of paths (Path p) of
        None \<Rightarrow>
          minionPaths ps i ingress
            (AList.update (Path p) i paths, setValidPath i (Path p) True minionConfigs,
             childWarnings)
      | Some j \<Rightarrow>
          if \<not> j < length minionConfigs then None
          else
            (let holder = minionConfigs ! j;
                 warning = ''path '' @ Path p @ '' is taken by another resource'' in
             if \<not> chooseObjectMetaWinner (Ingress_ObjectMeta (Minion_Ingress holder))
                     (Ingress_ObjectMeta ingress)
             then minionPaths ps i ingress
                    (AList.update (Path p) i paths,
                     setValidPath j (Path p) False (setValidPath i (Path p) True minionConfigs),
                     appendChildWarning
                       (getResourceKey (Ingress_ObjectMeta (Minion_Ingress holder)))
                       warning childWarnings)
             else minionPaths ps i ingress
                    (paths, minionConfigs,
                     appendChildWarning (getResourceKey (Ingress_ObjectMeta ingress))
                       warning childWarnings)))"

fun minionLoop ::
  "Env \<Rightarrow> Configuration \<Rightarrow> string \<Rightarrow> string list \<Rightarrow>
   (string \<times> nat) list \<times> MinionConfiguration list \<times> (string \<times> string list) list \<Rightarrow>
   (MinionConfiguration list \<times> (string \<times> string list) list) option" where
  "minionLoop env c masterHost [] (paths, minionConfigs, childWarnings) =
     Some (minionConfigs, childWarnings)"
| "minionLoop env c masterHost (minionKey # keys) (paths, minionConfigs, childWarnings) =
     do { ingress \<leftarrow> map_of (ingresses c) minionKey;
          if \<not> isMinion env ingress
          then minionLoop env c masterHost keys (paths, minionConfigs, childWarnings)
          else
            (case Spec_Rules ingress of
               [] \<Rightarrow> None
             | rule # _ \<Rightarrow>
                 if masterHost \<noteq> Rule_Host rule
                 then minionLoop env c masterHost keys (paths, minionConfigs, childWarnings)
                 else
                   (case Rule_HTTP rule of
                      None \<Rightarrow> None
                    | Some ps \<Rightarrow>
                        do { st1 \<leftarrow> minionPaths ps (length minionConfigs) ingress
                                      (paths, minionConfigs @ [NewMinionConfiguration ingress],
                                       childWarnings);
                             minionLoop env c masterHost keys st1 })) }"

definition buildMinionConfigs ::
  "Env \<Rightarrow> Configuration \<Rightarrow> string \<Rightarrow>
   (MinionConfiguration list \<times> (string \<times> string list) list) option" where
  "buildMinionConfigs env c masterHost =
     minionLoop env c masterHost (getSortedKeys (ingresses c)) ([], [], [])"

subsection \<open>buildVirtualServerRoutes and buildListenersForVSConfiguration\<close>

fun virtualServerRoutesLoop ::
  "Env \<Rightarrow> Configuration \<Rightarrow> VirtualServer \<Rightarrow> Route list \<Rightarrow>
   VirtualServerRoute list \<times> string list \<Rightarrow> VirtualServerRoute list \<times> string list" where
  "virtualServerRoutesLoop env c vs [] (vsrs, warnings) = (vsrs, warnings)"
| "virtualServerRoutesLoop env c vs (r # rs) (vsrs, warnings) =
     (if Route_Route r = [] then virtualServerRoutesLoop env c vs rs (vsrs, warnings)
      else
        (let vsrKey = (if CHR ''/'' \<notin> set (Route_Route r)
                       then Namespace (VS_ObjectMeta vs) @ ''/'' @ Route_Route r
                       else Route_Route r) in
         case map_of (virtualServerRoutes c) vsrKey of
           None \<Rightarrow>
             virtualServerRoutesLoop env c vs rs
               (vsrs, warnings @ [''VirtualServerRoute '' @ vsrKey @ '' doesn''
                                   @ [CHR 0x27] @ ''t exist or invalid''])
         | Some vsr \<Rightarrow>
             (case ValidateVirtualServerRouteForVirtualServer env vsr (VS_Host vs) (Route_Path r) of
                Some err \<Rightarrow>
                  virtualServerRoutesLoop env c vs rs
                    (vsrs, warnings @ [''VirtualServerRoute '' @ vsrKey @ '' is invalid: '' @ err])
              | None \<Rightarrow> virtualServerRoutesLoop env c vs rs (vsrs @ [vsr], warnings))))"

definition buildVirtualServerRoutes ::
  "Env \<Rightarrow> Configuration \<Rightarrow> VirtualServer \<Rightarrow> VirtualServerRoute list \<times> string list" where
  "buildVirtualServerRoutes env c vs = virtualServerRoutesLoop env c vs (VS_Routes vs) ([], [])"

definition buildListenersForVSConfiguration ::
  "Configuration \<Rightarrow> VirtualServerConfiguration \<Rightarrow> VirtualServerConfiguration" where
  "buildListenersForVSConfiguration c vsc =
     (case VS_Listener (VSC_VirtualServer vsc) of
        None \<Rightarrow> vsc
      | Some vsListener \<Rightarrow>
          if globalConfiguration c = None then vsc
          else
            (let vsc1 =
                   (case map_of (listenerMap c) (Listener_HTTP vsListener) of
                      None \<Rightarrow> vsc
                    | Some gcListener \<Rightarrow>
                        if L_Protocol gcListener = HTTPProtocol \<and> L_Ssl gcListener = False
                        then vsc\<lparr>HTTPPort := L_Port gcListener,
                                 HTTPIPv4 := L_IPv4 gcListener,
                                 HTTPIPv6 := L_IPv6 gcListener\<rparr>
                        else vsc) in
             case map_of (listenerMap c) (Listener_HTTPS vsListener) of
               None \<Rightarrow> vsc1
             | Some gcListener \<Rightarrow>
                 if L_Protocol gcListener = HTTPProtocol \<and> L_Ssl gcListener = True
                 then vsc1\<lparr>HTTPSPort := L_Port gcListener,
                           HTTPSIPv4 := L_IPv4 gcListener,
                           HTTPSIPv6 := L_IPv6 gcListener\<rparr>
                 else vsc1))"

subsection \<open>buildHostsAndResources\<close>

text \<open>The three passes resolve a collision on a host with the same code.\<close>

definition claimHost ::
  "string \<Rightarrow> string \<Rightarrow> (string \<times> string) list \<Rightarrow> (string \<times> Resource) list \<Rightarrow>
   ((string \<times> string) list \<times> (string \<times> Resource) list) option" where
  "claimHost host resourcePtr newHosts newResources =
     (case map_of newHosts host of
        None \<Rightarrow> Some (AList.update host resourcePtr newHosts, newResources)
      | Some holderPtr \<Rightarrow>
          do { holder \<leftarrow> map_of newResources holderPtr;
               resource \<leftarrow> map_of newResources resourcePtr;
               let warning = ''host '' @ host @ '' is taken by another resource'';
               if \<not> Wins holder resource
               then Some (AList.update host resourcePtr newHosts,
                          addWarningAt holderPtr warning newResources)
               else Some (newHosts, addWarningAt resourcePtr warning newResources) })"

fun claimRules ::
  "IngressRule list \<Rightarrow> string \<Rightarrow> (string \<times> string) list \<Rightarrow> (string \<times> Resource) list \<Rightarrow>
   ((string \<times> string) list \<times> (string \<times> Resource) list) option" where
  "claimRules [] resourcePtr newHosts newResources = Some (newHosts, newResources)"
| "claimRules (rule # rules) resourcePtr newHosts newResources =
     do { (newHosts1, newResources1) \<leftarrow>
            claimHost (Rule_Host rule) resourcePtr newHosts newResources;
          claimRules rules resourcePtr newHosts1 newResources1 }"

type_synonym buildState =
  "(string \<times> string) list \<times> (string \<times> Resource) list \<times> VirtualServerRoute list"

definition buildIngressStep :: "Env \<Rightarrow> Configuration \<Rightarrow> string \<Rightarrow> buildState \<Rightarrow> buildState option" where
  "buildIngressStep env c key st =
     (case st of (newHosts, newResources, challengesVSR) \<Rightarrow>
      do { ing \<leftarrow> map_of (ingresses c) key;
           if isMinion env ing then Some st
           else
             do { converted \<leftarrow> (if isChallengeIngress env ing then convertIngressToVSR c ing
                                 else Some None);
                  case converted of
                    Some vsr \<Rightarrow> Some (newHosts, newResources, challengesVSR @ [vsr])
                  | None \<Rightarrow>
                      do { resource \<leftarrow>
                             (if isMaster env ing
                              then (case Spec_Rules ing of
                                      [] \<Rightarrow> None
                                    | rule # _ \<Rightarrow>
                                        do { (minions, childWarnings) \<leftarrow>
                                               buildMinionConfigs env c (Rule_Host rule);
                                             Some (NewMasterIngressConfiguration ing minions
                                                     childWarnings) })
                              else Some (NewRegularIngressConfiguration ing));
                           let resourcePtr = GetKeyWithKind (IC resource);
                           (newHosts1, newResources1) \<leftarrow>
                              claimRules (Spec_Rules ing) resourcePtr newHosts
                                (AList.update resourcePtr (IC resource) newResources);
                           Some (newHosts1, newResources1, challengesVSR) } } })"

definition buildVirtualServerStep ::
  "Env \<Rightarrow> Configuration \<Rightarrow> string \<Rightarrow> buildState \<Rightarrow> buildState option" where
  "buildVirtualServerStep env c key st =
     (case st of (newHosts, newResources, challengesVSR) \<Rightarrow>
      do { vs \<leftarrow> map_of (virtualServers c) key;
           (vsrs, warnings) \<leftarrow> Some (buildVirtualServerRoutes env c vs);
           let vsrs1 = vsrs @ filter (\<lambda>vsr. VS_Host vs = VSR_Host vsr) challengesVSR;
           let resource = buildListenersForVSConfiguration c
                            (NewVirtualServerConfiguration vs vsrs1 warnings);
           let resourcePtr = GetKeyWithKind (VSC resource);
           (newHosts1, newResources1) \<leftarrow>
              claimHost (VS_Host vs) resourcePtr newHosts
                (AList.update resourcePtr (VSC resource) newResources);
           Some (newHosts1, newResources1, challengesVSR) })"

definition buildTransportServerStep ::
  "Env \<Rightarrow> Configuration \<Rightarrow> string \<Rightarrow> buildState \<Rightarrow> buildState option" where
  "buildTransportServerStep env c key st =
     (case st of (newHosts, newResources, challengesVSR) \<Rightarrow>
      do { ts \<leftarrow> map_of (transportServers c) key;
           if TS_Listener_Name ts \<noteq> TLSPassthroughListenerName \<and>
              TS_Listener_Protocol ts \<noteq> TLSPassthroughListenerProtocol
           then Some st
           else
             do { let resource = NewTransportServerConfiguration ts;
                  let resourcePtr = GetKeyWithKind (TSC resource);
                  (newHosts1, newResources1) \<leftarrow>
                     claimHost (TS_Host ts) resourcePtr newHosts
                       (AList.update resourcePtr (TSC resource) newResources);
                  Some (newHosts1, newResources1, challengesVSR) } })"

fun buildLoop ::
  "(string \<Rightarrow> buildState \<Rightarrow> buildState option) \<Rightarrow> string list \<Rightarrow> buildState \<Rightarrow>
   buildState option" where
  "buildLoop step [] st = Some st"
| "buildLoop step (key # keys) st = do { st1 \<leftarrow> step key st; buildLoop step keys st1 }"

definition buildHostsAndResources ::
  "Env \<Rightarrow> Configuration \<Rightarrow> ((string \<times> string) list \<times> (string \<times> Resource) list) option" where
  "buildHostsAndResources env c =
     do { st1 \<leftarrow> buildLoop (buildIngressStep env c) (getSortedKeys (ingresses c)) ([], [], []);
          st2 \<leftarrow> buildLoop (buildVirtualServerStep env c) (getSortedKeys (virtualServers c)) st1;
          st3 \<leftarrow> (if isTLSPassthroughEnabled env
                   then buildLoop (buildTransportServerStep env c)
                          (getSortedKeys (transportServers c)) st2
                   else Some st2);
          Some (fst st3, fst (snd st3)) }"

section \<open>rebuildHosts\<close>

fun setValidHosts ::
  "IngressRule list \<Rightarrow> string \<Rightarrow> (string \<times> string) list \<Rightarrow> (string \<times> Resource) list \<Rightarrow>
   (string \<times> bool) list \<Rightarrow> (string \<times> bool) list option" where
  "setValidHosts [] ownKey hostPtrs resources validHosts = Some validHosts"
| "setValidHosts (rule # rules) ownKey hostPtrs resources validHosts =
     do { ptr \<leftarrow> map_of hostPtrs (Rule_Host rule);
          res \<leftarrow> map_of resources ptr;
          setValidHosts rules ownKey hostPtrs resources
            (AList.update (Rule_Host rule) (GetKeyWithKind res = ownKey) validHosts) }"

fun updateActiveHostsLoop ::
  "(string \<times> Resource) list \<Rightarrow> (string \<times> string) list \<Rightarrow> (string \<times> Resource) list \<Rightarrow>
   (string \<times> Resource) list option" where
  "updateActiveHostsLoop [] hostPtrs resources = Some []"
| "updateActiveHostsLoop ((k, r) # rest) hostPtrs resources =
     do { r1 \<leftarrow> (case r of
                    IC ingConfig \<Rightarrow>
                      do { vh \<leftarrow> setValidHosts (Spec_Rules (IC_Ingress ingConfig))
                                   (GetKeyWithKind r) hostPtrs resources (ValidHosts ingConfig);
                           Some (IC (ingConfig\<lparr>ValidHosts := vh\<rparr>)) }
                  | _ \<Rightarrow> Some r);
          rest1 \<leftarrow> updateActiveHostsLoop rest hostPtrs resources;
          Some ((k, r1) # rest1) }"

definition updateActiveHostsForIngresses ::
  "(string \<times> string) list \<Rightarrow> (string \<times> Resource) list \<Rightarrow> (string \<times> Resource) list option" where
  "updateActiveHostsForIngresses hostPtrs resources =
     updateActiveHostsLoop resources hostPtrs resources"

definition hostProblem :: "runtime_Object \<Rightarrow> string \<Rightarrow> string \<Rightarrow> ConfigurationProblem" where
  "hostProblem obj reason message =
     \<lparr>Object = obj, IsError = False, Reason = reason, Message = message\<rparr>"

definition addProblemForResource ::
  "(string \<times> Resource) list \<Rightarrow> Resource \<Rightarrow> (string \<times> ConfigurationProblem) list \<Rightarrow>
   (string \<times> ConfigurationProblem) list option" where
  "addProblemForResource c_hosts r problems =
     (case r of
        IC impl \<Rightarrow>
          if \<not> list_ex (\<lambda>(h, v). v) (ValidHosts impl)
          then Some (AList.update (GetKeyWithKind r)
                 (hostProblem (IngressObject (IC_Ingress impl)) EventReasonRejected
                    ''All hosts are taken by other resources'') problems)
          else Some problems
      | VSC impl \<Rightarrow>
          do { res \<leftarrow> map_of c_hosts (VS_Host (VSC_VirtualServer impl));
               if GetKeyWithKind res \<noteq> GetKeyWithKind r
               then Some (AList.update (GetKeyWithKind r)
                      (hostProblem (VirtualServerObject (VSC_VirtualServer impl)) EventReasonRejected
                         ''Host is taken by another resource'') problems)
               else Some problems }
      | TSC impl \<Rightarrow>
          do { res \<leftarrow> map_of c_hosts (TS_Host (TSC_TransportServer impl));
               if GetKeyWithKind res \<noteq> GetKeyWithKind r
               then Some (AList.update (GetKeyWithKind r)
                      (hostProblem (TransportServerObject (TSC_TransportServer impl))
                         EventReasonRejected ''Host is taken by another resource'') problems)
               else Some problems })"

fun addProblemsForResourcesWithoutActiveHost ::
  "(string \<times> Resource) list \<Rightarrow> (string \<times> Resource) list \<Rightarrow>
   (string \<times> ConfigurationProblem) list \<Rightarrow> (string \<times> ConfigurationProblem) list option" where
  "addProblemsForResourcesWithoutActiveHost c_hosts [] problems = Some problems"
| "addProblemsForResourcesWithoutActiveHost c_hosts ((k, r) # resources) problems =
     do { problems1 \<leftarrow> addProblemForResource c_hosts r problems;
          addProblemsForResourcesWithoutActiveHost c_hosts resources problems1 }"

fun orphanMinionsLoop ::
  "Env \<Rightarrow> Configuration \<Rightarrow> (string \<times> Resource) list \<Rightarrow> string list \<Rightarrow>
   (string \<times> ConfigurationProblem) list \<Rightarrow> (string \<times> ConfigurationProblem) list option" where
  "orphanMinionsLoop env c c_hosts [] problems = Some problems"
| "orphanMinionsLoop env c c_hosts (key # keys) problems =
     do { ing \<leftarrow> map_of (ingresses c) key;
          if \<not> isMinion env ing then orphanMinionsLoop env c c_hosts keys problems
          else
            (case Spec_Rules ing of
               [] \<Rightarrow> None
             | rule # _ \<Rightarrow>
                 if (case map_of c_hosts (Rule_Host rule) of
                       Some (IC ingressConf) \<Rightarrow> \<not> IsMaster ingressConf
                     | _ \<Rightarrow> True)
                 then orphanMinionsLoop env c c_hosts keys
                        (AList.update (getResourceKeyWithKind ingressKind (Ingress_ObjectMeta ing))
                           (hostProblem (IngressObject ing) EventReasonNoIngressMasterFound
                              (''Ingress master is invalid or doesn'' @ [CHR 0x27] @ ''t exist''))
                           problems)
                 else orphanMinionsLoop env c c_hosts keys problems) }"

definition addProblemsForOrphanMinions ::
  "Env \<Rightarrow> Configuration \<Rightarrow> (string \<times> Resource) list \<Rightarrow>
   (string \<times> ConfigurationProblem) list \<Rightarrow> (string \<times> ConfigurationProblem) list option" where
  "addProblemsForOrphanMinions env c c_hosts problems =
     orphanMinionsLoop env c c_hosts (getSortedKeys (ingresses c)) problems"

fun orphanVsrsLoop ::
  "Configuration \<Rightarrow> (string \<times> Resource) list \<Rightarrow> string list \<Rightarrow>
   (string \<times> ConfigurationProblem) list \<Rightarrow> (string \<times> ConfigurationProblem) list option" where
  "orphanVsrsLoop c c_hosts [] problems = Some problems"
| "orphanVsrsLoop c c_hosts (key # keys) problems =
     do { vsr \<leftarrow> map_of (virtualServerRoutes c) key;
          case map_of c_hosts (VSR_Host vsr) of
            Some (VSC vsConfig) \<Rightarrow>
              if \<not> list_ex (\<lambda>v. Namespace (VSR_ObjectMeta vsr) = Namespace (VSR_ObjectMeta v) \<and>
                                  Name (VSR_ObjectMeta vsr) = Name (VSR_ObjectMeta v))
                       (VirtualServerRoutes vsConfig)
              then orphanVsrsLoop c c_hosts keys
                     (AList.update
                        (getResourceKeyWithKind virtualServerRouteKind (VSR_ObjectMeta vsr))
                        (hostProblem (VirtualServerRouteObject vsr) EventReasonIgnored
                           (''VirtualServer ''
                              @ getResourceKey (VS_ObjectMeta (VSC_VirtualServer vsConfig))
                              @ '' ignores VirtualServerRoute''))
                        problems)
              else orphanVsrsLoop c c_hosts keys problems
          | _ \<Rightarrow>
              orphanVsrsLoop c c_hosts keys
                (AList.update
                   (getResourceKeyWithKind virtualServerRouteKind (VSR_ObjectMeta vsr))
                   (hostProblem (VirtualServerRouteObject vsr) EventReasonNoVirtualServerFound
                      (''VirtualServer is invalid or doesn'' @ [CHR 0x27] @ ''t exist''))
                   problems) }"

definition addProblemsForOrphanOrIgnoredVsrs ::
  "Configuration \<Rightarrow> (string \<times> Resource) list \<Rightarrow>
   (string \<times> ConfigurationProblem) list \<Rightarrow> (string \<times> ConfigurationProblem) list option" where
  "addProblemsForOrphanOrIgnoredVsrs c c_hosts problems =
     orphanVsrsLoop c c_hosts (getSortedKeys (virtualServerRoutes c)) problems"

definition isListenerInCorrectBlock :: "Configuration \<Rightarrow> string \<Rightarrow> bool \<Rightarrow> bool" where
  "isListenerInCorrectBlock c listenerName expectedSsl =
     (case map_of (listenerMap c) listenerName of
        None \<Rightarrow> True
      | Some listener \<Rightarrow> \<not> (L_Ssl listener \<noteq> expectedSsl))"

text \<open>The warning of a VirtualServer whose listeners are misconfigured, if any.\<close>

definition missConfiguredListenerWarning ::
  "Configuration \<Rightarrow> VirtualServerListener \<Rightarrow> string option" where
  "missConfiguredListenerWarning c vsListener =
     (if globalConfiguration c = None
      then Some ''Listeners defined, but no GlobalConfiguration is deployed''
      else if \<not> isListenerInCorrectBlock c (Listener_HTTP vsListener) False
      then Some (''Listener '' @ Listener_HTTP vsListener @ '' can'' @ [CHR 0x27]
                   @ ''t be use in `listener.http` context as SSL is enabled for that listener.'')
      else if \<not> isListenerInCorrectBlock c (Listener_HTTPS vsListener) True
      then Some (''Listener '' @ Listener_HTTPS vsListener @ '' can'' @ [CHR 0x27]
                   @ ''t be use in `listener.https` context as SSL is not enabled for that listener.'')
      else if Listener_HTTP vsListener \<noteq> [] \<and>
              map_of (listenerMap c) (Listener_HTTP vsListener) = None
      then Some (''Listener '' @ Listener_HTTP vsListener
                   @ '' is not defined in GlobalConfiguration'')
      else if Listener_HTTPS vsListener \<noteq> [] \<and>
              map_of (listenerMap c) (Listener_HTTPS vsListener) = None
      then Some (''Listener '' @ Listener_HTTPS vsListener
                   @ '' is not defined in GlobalConfiguration'')
      else None)"

text \<open>\<open>addWarningsForVirtualServersWithMissConfiguredListeners\<close> ranges over the resources
  (in the model, in the order of the association list) and adds each warning to the
  holder of the host of the VirtualServer.\<close>

fun addWarningsLoop ::
  "Configuration \<Rightarrow> (string \<times> string) list \<Rightarrow> (string \<times> Resource) list \<Rightarrow>
   (string \<times> Resource) list \<Rightarrow> (string \<times> Resource) list option" where
  "addWarningsLoop c hostPtrs [] resources = Some resources"
| "addWarningsLoop c hostPtrs ((k, r) # rest) resources =
     (case r of
        VSC vsc \<Rightarrow>
          (case VS_Listener (VSC_VirtualServer vsc) of
             None \<Rightarrow> addWarningsLoop c hostPtrs rest resources
           | Some vsListener \<Rightarrow>
               (case missConfiguredListenerWarning c vsListener of
                  None \<Rightarrow> addWarningsLoop c hostPtrs rest resources
                | Some warningMsg \<Rightarrow>
                    do { ptr \<leftarrow> map_of hostPtrs (VS_Host (VSC_VirtualServer vsc));
                         holder \<leftarrow> map_of resources ptr;
                         addWarningsLoop c hostPtrs rest
                           (AList.update ptr (AddWarning warningMsg holder) resources) }))
      | _ \<Rightarrow> addWarningsLoop c hostPtrs rest resources)"

definition addWarningsForVirtualServersWithMissConfiguredListeners ::
  "Configuration \<Rightarrow> (string \<times> string) list \<Rightarrow> (string \<times> Resource) list \<Rightarrow>
   (string \<times> Resource) list option" where
  "addWarningsForVirtualServersWithMissConfiguredListeners c hostPtrs resources =
     addWarningsLoop c hostPtrs resources resources"

text \<open>
  \<open>rebuildHosts\<close>. The changes and \<open>c.hosts\<close> hold pointers to the new resources, which
  receive their last warnings at the end of the rebuild; the model reads the resources
  behind the pointers (\<open>resolvePointers\<close>, \<open>freshenChanges\<close>) once these warnings are
  added. Change detection compares the old resources with the new ones as they are when
  the Go code compares them, before those warnings.
\<close>

definition rebuildHosts ::
  "Env \<Rightarrow> Configuration \<Rightarrow>
   (ResourceChange list \<times> ConfigurationProblem list \<times> Configuration) option" where
  "rebuildHosts env c =
     do { (newHostPtrs, newResources0) \<leftarrow> buildHostsAndResources env c;
          newResources1 \<leftarrow> updateActiveHostsForIngresses newHostPtrs newResources0;
          newHosts1 \<leftarrow> resolvePointers newHostPtrs newResources1;
          (removedHosts, updatedHosts, addedHosts) \<leftarrow>
             Some (detectChangesInHosts (hosts c) newHosts1);
          changes \<leftarrow> createResourceChangesForHosts removedHosts updatedHosts addedHosts
                       (hosts c) newHosts1;
          let changes1 = squashResourceChanges changes;
          problems1 \<leftarrow> addProblemsForResourcesWithoutActiveHost newHosts1 newResources1 [];
          problems2 \<leftarrow> addProblemsForOrphanMinions env c newHosts1 problems1;
          newProblems \<leftarrow> addProblemsForOrphanOrIgnoredVsrs c newHosts1 problems2;
          newResources2 \<leftarrow>
             addWarningsForVirtualServersWithMissConfiguredListeners c newHostPtrs newResources1;
          newHosts2 \<leftarrow> resolvePointers newHostPtrs newResources2;
          let changes2 = freshenChanges newResources2 changes1;
          let newOrUpdatedProblems = detectChangesInProblems newProblems (hostProblems c);
          Some (changes2, newOrUpdatedProblems,
                c\<lparr>hosts := newHosts2, hostProblems := newProblems\<rparr>) }"

section \<open>The mutators\<close>

text \<open>The loop of the AddOrUpdate mutators that puts the validation error on the first
  change of the resource: \<open>None\<close> when no change has the key.\<close>

fun attachError :: "string \<Rightarrow> string \<Rightarrow> ResourceChange list \<Rightarrow> ResourceChange list option" where
  "attachError keyWithKind err [] = None"
| "attachError keyWithKind err (ch # changes) =
     (if GetKeyWithKind (Resource ch) = keyWithKind then Some (ch\<lparr>Error := err\<rparr> # changes)
      else map_option ((#) ch) (attachError keyWithKind err changes))"

definition rejectedProblem :: "runtime_Object \<Rightarrow> string \<Rightarrow> ConfigurationProblem" where
  "rejectedProblem obj message =
     \<lparr>Object = obj, IsError = True, Reason = EventReasonRejected, Message = message\<rparr>"

text \<open>The end of the AddOrUpdate mutators of Ingress, VirtualServer and TransportServer:
  the validation error goes on the change of the resource, or into a new problem.\<close>

definition reportValidationError ::
  "string option \<Rightarrow> string \<Rightarrow> (string \<Rightarrow> ConfigurationProblem) \<Rightarrow>
   ResourceChange list \<Rightarrow> ConfigurationProblem list \<Rightarrow>
   ResourceChange list \<times> ConfigurationProblem list" where
  "reportValidationError validationError keyWithKind problemOf changes problems =
     (case validationError of
        None \<Rightarrow> (changes, problems)
      | Some err \<Rightarrow>
          (case attachError keyWithKind err changes of
             Some changes1 \<Rightarrow> (changes1, problems)
           | None \<Rightarrow> (changes, problems @ [problemOf err])))"

definition AddOrUpdateIngress ::
  "Env \<Rightarrow> Ingress \<Rightarrow> Configuration \<Rightarrow>
   (ResourceChange list \<times> ConfigurationProblem list \<times> Configuration) option" where
  "AddOrUpdateIngress env ing c =
     (let key = getResourceKey (Ingress_ObjectMeta ing);
          validationError = (if \<not> hasCorrectIngressClass env (IngressObject ing) then None
                             else validateIngress env ing);
          c1 = (if \<not> hasCorrectIngressClass env (IngressObject ing)
                then c\<lparr>ingresses := AList.delete key (ingresses c)\<rparr>
                else if validationError \<noteq> None
                then c\<lparr>ingresses := AList.delete key (ingresses c)\<rparr>
                else c\<lparr>ingresses := AList.update key ing (ingresses c)\<rparr>) in
      do { (changes, problems, c2) \<leftarrow> rebuildHosts env c1;
           (changes1, problems1) \<leftarrow>
              Some (reportValidationError validationError
                      (getResourceKeyWithKind ingressKind (Ingress_ObjectMeta ing))
                      (\<lambda>err. rejectedProblem (IngressObject ing) err)
                      changes problems);
           Some (changes1, problems1, c2) })"

text \<open>A Delete mutator returns \<open>nil, nil\<close> and leaves the Configuration as it is when the
  key is absent.\<close>

definition DeleteIngress ::
  "Env \<Rightarrow> string \<Rightarrow> Configuration \<Rightarrow>
   (ResourceChange list \<times> ConfigurationProblem list \<times> Configuration) option" where
  "DeleteIngress env key c =
     (if map_of (ingresses c) key = None then Some ([], [], c)
      else rebuildHosts env (c\<lparr>ingresses := AList.delete key (ingresses c)\<rparr>))"

definition AddOrUpdateVirtualServer ::
  "Env \<Rightarrow> VirtualServer \<Rightarrow> Configuration \<Rightarrow>
   (ResourceChange list \<times> ConfigurationProblem list \<times> Configuration) option" where
  "AddOrUpdateVirtualServer env vs c =
     (let key = getResourceKey (VS_ObjectMeta vs);
          validationError = (if \<not> hasCorrectIngressClass env (VirtualServerObject vs) then None
                             else ValidateVirtualServer env vs);
          c1 = (if \<not> hasCorrectIngressClass env (VirtualServerObject vs)
                then c\<lparr>virtualServers := AList.delete key (virtualServers c)\<rparr>
                else if validationError \<noteq> None
                then c\<lparr>virtualServers := AList.delete key (virtualServers c)\<rparr>
                else c\<lparr>virtualServers := AList.update key vs (virtualServers c)\<rparr>) in
      do { (changes, problems, c2) \<leftarrow> rebuildHosts env c1;
           (changes1, problems1) \<leftarrow>
              Some (reportValidationError validationError
                      (getResourceKeyWithKind virtualServerKind (VS_ObjectMeta vs))
                      (\<lambda>err. rejectedProblem (VirtualServerObject vs)
                                (''VirtualServer '' @ getResourceKey (VS_ObjectMeta vs)
                                   @ '' was rejected with error: '' @ err))
                      changes problems);
           Some (changes1, problems1, c2) })"

definition DeleteVirtualServer ::
  "Env \<Rightarrow> string \<Rightarrow> Configuration \<Rightarrow>
   (ResourceChange list \<times> ConfigurationProblem list \<times> Configuration) option" where
  "DeleteVirtualServer env key c =
     (if map_of (virtualServers c) key = None then Some ([], [], c)
      else rebuildHosts env (c\<lparr>virtualServers := AList.delete key (virtualServers c)\<rparr>))"

definition AddOrUpdateVirtualServerRoute ::
  "Env \<Rightarrow> VirtualServerRoute \<Rightarrow> Configuration \<Rightarrow>
   (ResourceChange list \<times> ConfigurationProblem list \<times> Configuration) option" where
  "AddOrUpdateVirtualServerRoute env vsr c =
     (let key = getResourceKey (VSR_ObjectMeta vsr);
          validationError = (if \<not> hasCorrectIngressClass env (VirtualServerRouteObject vsr) then None
                             else ValidateVirtualServerRoute env vsr);
          c1 = (if \<not> hasCorrectIngressClass env (VirtualServerRouteObject vsr)
                then c\<lparr>virtualServerRoutes := AList.delete key (virtualServerRoutes c)\<rparr>
                else if validationError \<noteq> None
                then c\<lparr>virtualServerRoutes := AList.delete key (virtualServerRoutes c)\<rparr>
                else c\<lparr>virtualServerRoutes := AList.update key vsr (virtualServerRoutes c)\<rparr>) in
      do { (changes, problems, c2) \<leftarrow> rebuildHosts env c1;
           Some (changes,
                 (case validationError of
                    None \<Rightarrow> problems
                  | Some err \<Rightarrow>
                      problems @ [rejectedProblem (VirtualServerRouteObject vsr)
                                    (''VirtualServerRoute '' @ getResourceKey (VSR_ObjectMeta vsr)
                                       @ '' was rejected with error: '' @ err)]),
                 c2) })"

definition DeleteVirtualServerRoute ::
  "Env \<Rightarrow> string \<Rightarrow> Configuration \<Rightarrow>
   (ResourceChange list \<times> ConfigurationProblem list \<times> Configuration) option" where
  "DeleteVirtualServerRoute env key c =
     (if map_of (virtualServerRoutes c) key = None then Some ([], [], c)
      else rebuildHosts env (c\<lparr>virtualServerRoutes := AList.delete key (virtualServerRoutes c)\<rparr>))"

text \<open>The mutators of the GlobalConfiguration and of a TransportServer run the listener
  rebuild and then the host rebuild (for a TransportServer, only when TLS passthrough is
  enabled), and append the second result to the first.\<close>

definition rebuildListenersThenHosts ::
  "Env \<Rightarrow> Configuration \<Rightarrow>
   (ResourceChange list \<times> ConfigurationProblem list \<times> Configuration) option" where
  "rebuildListenersThenHosts env c =
     do { (listenerChanges, listenerProblems, c1) \<leftarrow> rebuildListenerHosts c;
          (hostChanges, hostProblems, c2) \<leftarrow> rebuildHosts env c1;
          Some (listenerChanges @ hostChanges, listenerProblems @ hostProblems, c2) }"

definition AddOrUpdateGlobalConfiguration ::
  "Env \<Rightarrow> GlobalConfiguration \<Rightarrow> Configuration \<Rightarrow>
   (ResourceChange list \<times> ConfigurationProblem list \<times> string option \<times> Configuration) option" where
  "AddOrUpdateGlobalConfiguration env gc c =
     (let validationErr = ValidateGlobalConfiguration env gc;
          c1 = setGlobalConfigListenerMap (c\<lparr>globalConfiguration := Some gc\<rparr>) in
      do { (changes, problems, c2) \<leftarrow> rebuildListenersThenHosts env c1;
           Some (changes, problems, validationErr, c2) })"

definition DeleteGlobalConfiguration ::
  "Env \<Rightarrow> Configuration \<Rightarrow>
   (ResourceChange list \<times> ConfigurationProblem list \<times> Configuration) option" where
  "DeleteGlobalConfiguration env c =
     rebuildListenersThenHosts env (setGlobalConfigListenerMap (c\<lparr>globalConfiguration := None\<rparr>))"

definition rebuildForTransportServer ::
  "Env \<Rightarrow> Configuration \<Rightarrow>
   (ResourceChange list \<times> ConfigurationProblem list \<times> Configuration) option" where
  "rebuildForTransportServer env c =
     (if isTLSPassthroughEnabled env then rebuildListenersThenHosts env c
      else rebuildListenerHosts c)"

definition AddOrUpdateTransportServer ::
  "Env \<Rightarrow> TransportServer \<Rightarrow> Configuration \<Rightarrow>
   (ResourceChange list \<times> ConfigurationProblem list \<times> Configuration) option" where
  "AddOrUpdateTransportServer env ts c =
     (let key = getResourceKey (TS_ObjectMeta ts);
          validationErr = (if \<not> hasCorrectIngressClass env (TransportServerObject ts) then None
                           else ValidateTransportServer env ts);
          c1 = (if \<not> hasCorrectIngressClass env (TransportServerObject ts)
                then c\<lparr>transportServers := AList.delete key (transportServers c)\<rparr>
                else if validationErr \<noteq> None
                then c\<lparr>transportServers := AList.delete key (transportServers c)\<rparr>
                else c\<lparr>transportServers := AList.update key ts (transportServers c)\<rparr>) in
      do { (changes, problems, c2) \<leftarrow> rebuildForTransportServer env c1;
           (changes1, problems1) \<leftarrow>
              Some (reportValidationError validationErr
                      (getResourceKeyWithKind transportServerKind (TS_ObjectMeta ts))
                      (\<lambda>err. rejectedProblem (TransportServerObject ts)
                                (''TransportServer '' @ getResourceKey (TS_ObjectMeta ts)
                                   @ '' was rejected with error: '' @ err))
                      changes problems);
           Some (changes1, problems1, c2) })"

definition DeleteTransportServer ::
  "Env \<Rightarrow> string \<Rightarrow> Configuration \<Rightarrow>
   (ResourceChange list \<times> ConfigurationProblem list \<times> Configuration) option" where
  "DeleteTransportServer env key c =
     (if map_of (transportServers c) key = None then Some ([], [], c)
      else rebuildForTransportServer env
             (c\<lparr>transportServers := AList.delete key (transportServers c)\<rparr>))"

section \<open>Scenarios\<close>

text \<open>Concrete objects and collaborators, for the theorems that run the model.\<close>

definition mkMeta :: "string \<Rightarrow> string \<Rightarrow> int \<Rightarrow> string \<Rightarrow> ObjectMeta" where
  "mkMeta ns name ts uid =
     \<lparr>Namespace = ns, Name = name, Generation = 1, CreationTimestamp = ts, UID = uid,
      Annotations = None, Labels = []\<rparr>"

definition mkVS :: "ObjectMeta \<Rightarrow> string \<Rightarrow> VirtualServer" where
  "mkVS meta host = \<lparr>VS_ObjectMeta = meta, VS_Host = host, VS_Listener = None, VS_Routes = []\<rparr>"

definition mkTS :: "ObjectMeta \<Rightarrow> string \<Rightarrow> string \<Rightarrow> string \<Rightarrow> TransportServer" where
  "mkTS meta listenerName protocol host =
     \<lparr>TS_ObjectMeta = meta, TS_Listener_Name = listenerName, TS_Listener_Protocol = protocol,
      TS_Host = host\<rparr>"

definition mkVSR :: "ObjectMeta \<Rightarrow> string \<Rightarrow> VirtualServerRoute" where
  "mkVSR meta host =
     \<lparr>VSR_ObjectMeta = meta, VSR_Host = host, VSR_Upstreams = [], VSR_Subroutes = []\<rparr>"

definition vscOf :: "VirtualServer \<Rightarrow> Resource" where
  "vscOf vs = VSC (NewVirtualServerConfiguration vs [] [])"

definition tscOf :: "TransportServer \<Rightarrow> Resource" where
  "tscOf ts = TSC (NewTransportServerConfiguration ts)"

definition c6_a :: Resource where
  "c6_a = vscOf (mkVS (mkMeta ''a'' ''a'' 1 ''u2'') ''x.io'')"

definition c6_b :: Resource where
  "c6_b = vscOf (mkVS (mkMeta ''b'' ''b'' 1 ''u1'') ''x.io'')"

definition c6_c :: Resource where
  "c6_c = vscOf (mkVS (mkMeta ''c'' ''c'' 2 ''u9'') ''x.io'')"

definition c6_d :: Resource where
  "c6_d = vscOf (mkVS (mkMeta ''d'' ''d'' 1 ''u2'') ''x.io'')"

definition c7_old :: "(string \<times> Resource) list" where
  "c7_old =
     [(''a.io'', vscOf (mkVS (mkMeta ''a'' ''a'' 1 ''u1'') ''a.io'')),
      (''b.io'', tscOf (mkTS (mkMeta ''b'' ''b'' 2 ''u2'') ''tls-passthrough'' ''TLS_PASSTHROUGH''
                          ''b.io''))]"

definition c7_new :: "(string \<times> Resource) list" where
  "c7_new =
     [(''a.io'', VSC ((NewVirtualServerConfiguration (mkVS (mkMeta ''a'' ''a'' 1 ''u1'') ''a.io'')
                         [] []) \<lparr>HTTPPort := 8080\<rparr>)),
      (''c.io'', tscOf (mkTS (mkMeta ''c'' ''c'' 3 ''u3'') ''tls-passthrough'' ''TLS_PASSTHROUGH''
                          ''c.io''))]"

definition c9_vs1 :: VirtualServerConfiguration where
  "c9_vs1 = NewVirtualServerConfiguration (mkVS (mkMeta ''a'' ''vs'' 1 ''u1'') ''a.io'')
              [mkVSR (mkMeta ''a'' ''r1'' 1 ''u5'') ''a.io''] []"

definition c9_vs2 :: VirtualServerConfiguration where
  "c9_vs2 = NewVirtualServerConfiguration (mkVS (mkMeta ''a'' ''vs'' 1 ''u1'') ''a.io'')
              [mkVSR (mkMeta ''a'' ''r1'' 1 ''u5'') ''a.io''] [''a warning'']"

definition c9_ts1 :: TransportServerConfiguration where
  "c9_ts1 = NewTransportServerConfiguration (mkTS (mkMeta ''a'' ''ts'' 1 ''u1'') ''tcp-9000'' ''TCP'' [])"

definition c9_ts2 :: TransportServerConfiguration where
  "c9_ts2 = (NewTransportServerConfiguration (mkTS (mkMeta ''a'' ''ts'' 1 ''u1'') ''tcp-9000'' ''TCP'' []))
              \<lparr>ListenerPort := 9000\<rparr>"

text \<open>Collaborators for the scenarios: every object has the right ingress class; a
  VirtualServer or a TransportServer without a host name for its listener or host is
  invalid, a GlobalConfiguration with a port outside 1..65535 is invalid; an Ingress is a
  minion or a master by its annotation \<open>nginx.org/mergeable-ingress-type\<close>.\<close>

definition mergeableType :: "Ingress \<Rightarrow> string option" where
  "mergeableType ing =
     (case Annotations (Ingress_ObjectMeta ing) of
        None \<Rightarrow> None
      | Some m \<Rightarrow> map_of m ''nginx.org/mergeable-ingress-type'')"

definition scenarioEnv :: Env where
  "scenarioEnv =
     \<lparr>hasCorrectIngressClass = (\<lambda>obj. True),
      validateIngress = (\<lambda>ing. if Spec_Rules ing = [] then Some ''spec.rules: Required value''
                               else None),
      ValidateVirtualServer = (\<lambda>vs. if VS_Host vs = [] then Some ''spec.host: Required value''
                                    else None),
      ValidateVirtualServerRoute = (\<lambda>vsr. if VSR_Host vsr = []
                                           then Some ''spec.host: Required value'' else None),
      ValidateVirtualServerRouteForVirtualServer =
        (\<lambda>vsr host path. if VSR_Host vsr \<noteq> host then Some ''spec.host: Invalid value''
                          else None),
      ValidateTransportServer = (\<lambda>ts. if TS_Listener_Name ts = []
                                      then Some ''spec.listener.name: Required value'' else None),
      ValidateGlobalConfiguration =
        (\<lambda>gc. if list_ex (\<lambda>l. L_Port l < 1 \<or> 65535 < L_Port l) (GC_Listeners gc)
              then Some ''spec.listeners.port: Invalid value'' else None),
      isMinion = (\<lambda>ing. mergeableType ing = Some ''minion''),
      isMaster = (\<lambda>ing. mergeableType ing = Some ''master''),
      isTLSPassthroughEnabled = True,
      isCertManagerEnabled = True\<rparr>"

definition mkListener :: "string \<Rightarrow> int \<Rightarrow> string \<Rightarrow> Listener" where
  "mkListener name port protocol =
     \<lparr>L_Name = name, L_Port = port, L_Protocol = protocol, L_Ssl = False,
      L_IPv4 = [], L_IPv6 = []\<rparr>"

definition c3_gc :: GlobalConfiguration where
  "c3_gc = \<lparr>GC_Listeners = [mkListener ''tcp-0'' 0 ''TCP'']\<rparr>"

definition c3_vs :: VirtualServer where
  "c3_vs = mkVS (mkMeta ''a'' ''vs'' 1 ''u1'') []"

definition c3_vs_valid :: VirtualServer where
  "c3_vs_valid = mkVS (mkMeta ''a'' ''vs'' 1 ''u1'') ''x.io''"

text \<open>The Configuration of a mutator's result, and \<open>NewConfiguration\<close> when it panics.\<close>

definition stateOf ::
  "(ResourceChange list \<times> ConfigurationProblem list \<times> Configuration) option \<Rightarrow> Configuration" where
  "stateOf r = (case r of None \<Rightarrow> NewConfiguration | Some (changes, problems, c) \<Rightarrow> c)"

definition c3_c :: Configuration where
  "c3_c = stateOf (AddOrUpdateVirtualServer scenarioEnv c3_vs_valid NewConfiguration)"

text \<open>The mutable maps of the store and the GlobalConfiguration are the same in two
  Configurations.\<close>

definition sameStore :: "Configuration \<Rightarrow> Configuration \<Rightarrow> bool" where
  "sameStore c c' \<longleftrightarrow>
     ingresses c' = ingresses c \<and> virtualServers c' = virtualServers c \<and>
     virtualServerRoutes c' = virtualServerRoutes c \<and>
     transportServers c' = transportServers c \<and>
     globalConfiguration c' = globalConfiguration c \<and> listenerMap c' = listenerMap c"

text \<open>Every object of a map of the store is stored under its namespace and name, as the
  AddOrUpdate mutators store it.\<close>

definition storedUnderOwnKey :: "('a \<Rightarrow> ObjectMeta) \<Rightarrow> (string \<times> 'a) list \<Rightarrow> bool" where
  "storedUnderOwnKey meta m \<longleftrightarrow>
     list_all (\<lambda>key. case map_of m key of None \<Rightarrow> True
                                        | Some obj \<Rightarrow> key = getResourceKey (meta obj))
       (map fst m)"

text \<open>The TransportServerConfigurations of a listener rebuild belong to the stored
  TransportServers that are not TLS passthrough.\<close>

definition tsConfigsOf ::
  "Configuration \<Rightarrow> (string \<times> TransportServerConfiguration) list \<Rightarrow> bool" where
  "tsConfigsOf c tsConfigs \<longleftrightarrow>
     distinct (map fst tsConfigs) \<and>
     list_all (\<lambda>(key, tsc). map_of (transportServers c) key = Some (TSC_TransportServer tsc) \<and>
                 TS_Listener_Protocol (TSC_TransportServer tsc) \<noteq> TLSPassthroughListenerProtocol)
       tsConfigs"

definition c10_gc :: GlobalConfiguration where
  "c10_gc = \<lparr>GC_Listeners = [mkListener ''dns'' 5353 ''UDP'']\<rparr>"

definition c10_ts :: TransportServer where
  "c10_ts = mkTS (mkMeta ''a'' ''ts'' 1 ''u1'') ''dns'' ''TCP'' []"

definition c10_c :: Configuration where
  "c10_c = (setGlobalConfigListenerMap (NewConfiguration\<lparr>globalConfiguration := Some c10_gc\<rparr>))
             \<lparr>transportServers := [(''a/ts'', c10_ts)]\<rparr>"

definition resultOf ::
  "(ResourceChange list \<times> ConfigurationProblem list \<times> Configuration) option \<Rightarrow>
   ResourceChange list \<times> ConfigurationProblem list \<times> Configuration" where
  "resultOf r = (case r of None \<Rightarrow> ([], [], NewConfiguration) | Some x \<Rightarrow> x)"

text \<open>Every pointer of a map of pointers leads to an object.\<close>

definition pointersValid :: "('k \<times> 'p) list \<Rightarrow> ('p \<times> 'v) list \<Rightarrow> bool" where
  "pointersValid ptrs objects \<longleftrightarrow> (\<forall>(k, p) \<in> set ptrs. map_of objects p \<noteq> None)"

section \<open>Sorted keys\<close>

lemma set_getSortedKeys: "set (getSortedKeys m) = dom (map_of m)"
  by (simp add: getSortedKeys_def dom_map_of_conv_image_fst)

lemma sorted_getSortedKeys: "sorted (getSortedKeys m) \<and> distinct (getSortedKeys m)"
  by (simp add: getSortedKeys_def)

section \<open>The order of Wins\<close>

lemma chooseObjectMetaWinner_lex:
  "chooseObjectMetaWinner a b \<longleftrightarrow>
     CreationTimestamp a < CreationTimestamp b \<or>
     (CreationTimestamp a = CreationTimestamp b \<and> UID b < UID a)"
  unfolding chooseObjectMetaWinner_def
  by (cases "CreationTimestamp a = CreationTimestamp b") simp_all

lemma lex_pair_antisym:
  fixes ta tb :: "'a :: linorder" and ua ub :: "'b :: linorder"
  shows "(ta, ua) \<noteq> (tb, ub) \<longrightarrow>
    ((ta < tb \<or> (ta = tb \<and> ub < ua)) \<longleftrightarrow> \<not> (tb < ta \<or> (tb = ta \<and> ua < ub)))"
  using less_linear[of ta tb] less_linear[of ua ub] less_asym[of ua ub] less_asym[of ta tb]
  by blast

lemma lex_pair_trans:
  fixes ta tb tc :: "'a :: linorder" and ua ub uc :: "'b :: linorder"
  shows "(ta < tb \<or> (ta = tb \<and> ub < ua)) \<and> (tb < tc \<or> (tb = tc \<and> uc < ub)) \<longrightarrow>
    (ta < tc \<or> (ta = tc \<and> uc < ua))"
  using less_trans[of uc ub ua] less_trans[of ta tb tc] by blast

text \<open>
  Claim C6, as amended. \<open>Wins\<close> is the strict lexicographic order on the creation
  timestamp (older first) and the UID (greater first): for two resources that differ in
  the pair of creation timestamp and UID, \<open>Wins a b\<close> holds if and only if \<open>Wins b a\<close> does
  not; \<open>Wins\<close> is transitive.
\<close>

theorem wins_order:
  "((CreationTimestamp (GetObjectMeta a), UID (GetObjectMeta a)) \<noteq>
      (CreationTimestamp (GetObjectMeta b), UID (GetObjectMeta b))
      \<longrightarrow> (Wins a b \<longleftrightarrow> \<not> Wins b a)) \<and>
   (Wins a b \<and> Wins b c \<longrightarrow> Wins a c) \<and>
   (Wins a b \<longleftrightarrow>
      CreationTimestamp (GetObjectMeta a) < CreationTimestamp (GetObjectMeta b) \<or>
      (CreationTimestamp (GetObjectMeta a) = CreationTimestamp (GetObjectMeta b) \<and>
       UID (GetObjectMeta b) < UID (GetObjectMeta a)))"
proof -
  have 1: "(CreationTimestamp (GetObjectMeta a), UID (GetObjectMeta a)) \<noteq>
      (CreationTimestamp (GetObjectMeta b), UID (GetObjectMeta b))
      \<longrightarrow> (Wins a b \<longleftrightarrow> \<not> Wins b a)"
    unfolding Wins_def chooseObjectMetaWinner_lex by (rule lex_pair_antisym)
  have 2: "Wins a b \<and> Wins b c \<longrightarrow> Wins a c"
    unfolding Wins_def chooseObjectMetaWinner_lex by (rule lex_pair_trans)
  have 3: "Wins a b \<longleftrightarrow>
      CreationTimestamp (GetObjectMeta a) < CreationTimestamp (GetObjectMeta b) \<or>
      (CreationTimestamp (GetObjectMeta a) = CreationTimestamp (GetObjectMeta b) \<and>
       UID (GetObjectMeta b) < UID (GetObjectMeta a))"
    unfolding Wins_def by (rule chooseObjectMetaWinner_lex)
  from 1 2 3 show ?thesis by (intro conjI)
qed

theorem wins_order_witness:
  "(CreationTimestamp (GetObjectMeta c6_a), UID (GetObjectMeta c6_a)) \<noteq>
   (CreationTimestamp (GetObjectMeta c6_b), UID (GetObjectMeta c6_b)) \<and>
   (Wins c6_a c6_b \<longleftrightarrow> \<not> Wins c6_b c6_a) \<and>
   Wins c6_a c6_b \<and> Wins c6_b c6_c \<and> Wins c6_a c6_c"
proof -
  have ne: "(CreationTimestamp (GetObjectMeta c6_a), UID (GetObjectMeta c6_a)) \<noteq>
            (CreationTimestamp (GetObjectMeta c6_b), UID (GetObjectMeta c6_b))"
    by (simp add: c6_a_def c6_b_def vscOf_def mkVS_def mkMeta_def
        NewVirtualServerConfiguration_def)
  have ab: "Wins c6_a c6_b"
    by (simp add: c6_a_def c6_b_def vscOf_def mkVS_def mkMeta_def
        NewVirtualServerConfiguration_def Wins_def chooseObjectMetaWinner_def)
  have bc: "Wins c6_b c6_c"
    by (simp add: c6_b_def c6_c_def vscOf_def mkVS_def mkMeta_def
        NewVirtualServerConfiguration_def Wins_def chooseObjectMetaWinner_def)
  from wins_order [of c6_a c6_b c6_c] ne ab bc show ?thesis by blast
qed

text \<open>Two resources with different names, the same creation timestamp and the same UID:
  neither wins over the other.\<close>

theorem wins_distinct_counterexample:
  "c6_a \<noteq> c6_d \<and> \<not> (Wins c6_a c6_d \<longleftrightarrow> \<not> Wins c6_d c6_a)"
  by (simp add: c6_a_def c6_d_def vscOf_def mkVS_def mkMeta_def
      NewVirtualServerConfiguration_def Wins_def chooseObjectMetaWinner_def)

section \<open>Change detection on hosts\<close>

lemma set_three_ifs:
  "set ((if p then [h] else []) @ (if q then [h] else []) @ (if r then [h] else [])) =
     (if p \<or> q \<or> r then {h} else {})"
  by (cases p; cases q; cases r) simp_all

lemma updatedEntries_VSC:
  "IsEqual (VSC ov) (VSC nv) \<Longrightarrow>
   updatedEntries (VSC ov) (VSC nv) h =
     (if HTTPPort nv \<noteq> HTTPPort ov \<or> HTTPSPort nv \<noteq> HTTPSPort ov then [h] else []) @
     (if HTTPIPv4 nv \<noteq> HTTPIPv4 ov then [h] else []) @
     (if HTTPIPv6 nv \<noteq> HTTPIPv6 ov then [h] else [])"
  unfolding updatedEntries_def by simp

lemma set_updatedEntries:
  "set (updatedEntries oldR newR h) =
     (if \<not> IsEqual oldR newR \<or>
         (\<exists>ov nv. oldR = VSC ov \<and> newR = VSC nv \<and>
            (HTTPPort nv \<noteq> HTTPPort ov \<or> HTTPSPort nv \<noteq> HTTPSPort ov \<or>
             HTTPIPv4 nv \<noteq> HTTPIPv4 ov \<or> HTTPIPv6 nv \<noteq> HTTPIPv6 ov))
      then {h} else {})"
proof (cases "IsEqual oldR newR")
  case False
  then show ?thesis by (simp add: updatedEntries_def)
next
  case True
  show ?thesis
  proof (cases "\<exists>ov nv. oldR = VSC ov \<and> newR = VSC nv")
    case True
    then obtain ov nv where o: "oldR = VSC ov" and n: "newR = VSC nv" by blast
    from \<open>IsEqual oldR newR\<close> have e: "IsEqual (VSC ov) (VSC nv)" unfolding o n .
    show ?thesis
      unfolding o n updatedEntries_VSC [OF e] set_three_ifs using e by simp
  next
    case False
    with True show ?thesis
      by (cases oldR; cases newR) (simp_all add: updatedEntries_def)
  qed
qed


lemma in_updatedEntries:
  "h' \<in> set (updatedEntries oldR newR h) \<longleftrightarrow>
     (h' = h \<and> (\<not> IsEqual oldR newR \<or>
                 (\<exists>oldVsc newVsc. oldR = VSC oldVsc \<and> newR = VSC newVsc \<and>
                    (HTTPPort newVsc \<noteq> HTTPPort oldVsc \<or> HTTPSPort newVsc \<noteq> HTTPSPort oldVsc \<or>
                     HTTPIPv4 newVsc \<noteq> HTTPIPv4 oldVsc \<or> HTTPIPv6 newVsc \<noteq> HTTPIPv6 oldVsc))))"
proof -
  let ?P = "\<not> IsEqual oldR newR \<or>
                 (\<exists>oldVsc newVsc. oldR = VSC oldVsc \<and> newR = VSC newVsc \<and>
                    (HTTPPort newVsc \<noteq> HTTPPort oldVsc \<or> HTTPSPort newVsc \<noteq> HTTPSPort oldVsc \<or>
                     HTTPIPv4 newVsc \<noteq> HTTPIPv4 oldVsc \<or> HTTPIPv6 newVsc \<noteq> HTTPIPv6 oldVsc))"
  have s: "set (updatedEntries oldR newR h) = (if ?P then {h} else {})"
    by (rule set_updatedEntries)
  show ?thesis
  proof (cases ?P)
    case True
    with s have "set (updatedEntries oldR newR h) = {h}" by (simp only: if_True)
    then have "h' \<in> set (updatedEntries oldR newR h) \<longleftrightarrow> h' = h" by simp
    with True show ?thesis by blast
  next
    case False
    with s have "set (updatedEntries oldR newR h) = {}" by (simp only: if_False)
    then have "h' \<notin> set (updatedEntries oldR newR h)" by simp
    with False show ?thesis by blast
  qed
qed

lemma in_updated_case:
  "h \<in> set (case map_of oldHosts k of
               None \<Rightarrow> []
             | Some oldR \<Rightarrow>
                 (case map_of newHosts k of
                    None \<Rightarrow> []
                  | Some newR \<Rightarrow> updatedEntries oldR newR k)) \<longleftrightarrow>
   (\<exists>oldR newR. map_of oldHosts k = Some oldR \<and> map_of newHosts k = Some newR \<and>
      h = k \<and> h \<in> set (updatedEntries oldR newR k))"
proof (cases "map_of oldHosts k")
  case None
  then show ?thesis by simp
next
  case (Some oldR)
  note o = this
  show ?thesis
  proof (cases "map_of newHosts k")
    case None
    with o show ?thesis by simp
  next
    case (Some newR)
    have "h \<in> set (updatedEntries oldR newR k) \<Longrightarrow> h = k"
      by (simp only: in_updatedEntries)
    with o Some show ?thesis by auto
  qed
qed

text \<open>
  Claim C7. \<open>detectChangesInHosts\<close> returns as removed exactly the hosts of the old map
  that the new map does not hold, as added exactly the hosts of the new map that the old
  map does not hold, and as updated exactly the hosts that both hold and whose owners are
  not equal under \<open>IsEqual\<close>, or are two VirtualServerConfigurations that differ in
  \<open>HTTPPort\<close>, \<open>HTTPSPort\<close>, \<open>HTTPIPv4\<close> or \<open>HTTPIPv6\<close>. The removed and the added hosts
  come sorted and without repetition.
\<close>

theorem detectChangesInHosts_exact:
  assumes "detectChangesInHosts oldHosts newHosts = (removedHosts, updatedHosts, addedHosts)"
  shows "set removedHosts = dom (map_of oldHosts) - dom (map_of newHosts) \<and>
         set addedHosts = dom (map_of newHosts) - dom (map_of oldHosts) \<and>
         set updatedHosts =
           {h. \<exists>oldR newR. map_of oldHosts h = Some oldR \<and> map_of newHosts h = Some newR \<and>
                (\<not> IsEqual oldR newR \<or>
                 (\<exists>oldVsc newVsc. oldR = VSC oldVsc \<and> newR = VSC newVsc \<and>
                    (HTTPPort newVsc \<noteq> HTTPPort oldVsc \<or> HTTPSPort newVsc \<noteq> HTTPSPort oldVsc \<or>
                     HTTPIPv4 newVsc \<noteq> HTTPIPv4 oldVsc \<or> HTTPIPv6 newVsc \<noteq> HTTPIPv6 oldVsc)))} \<and>
         sorted removedHosts \<and> distinct removedHosts \<and> sorted addedHosts \<and> distinct addedHosts"
proof -
  have r: "removedHosts = filter (\<lambda>h. map_of newHosts h = None) (getSortedKeys oldHosts)"
    and a: "addedHosts = filter (\<lambda>h. map_of oldHosts h = None) (getSortedKeys newHosts)"
    and u: "updatedHosts = concat (map (\<lambda>h.
             case map_of oldHosts h of
               None \<Rightarrow> []
             | Some oldR \<Rightarrow>
                 (case map_of newHosts h of
                    None \<Rightarrow> []
                  | Some newR \<Rightarrow> updatedEntries oldR newR h))
             (getSortedKeys newHosts))"
    using assms by (simp_all add: detectChangesInHosts_def Let_def)
  have 1: "set removedHosts = dom (map_of oldHosts) - dom (map_of newHosts)"
    unfolding r by (auto simp: set_getSortedKeys)
  have 2: "set addedHosts = dom (map_of newHosts) - dom (map_of oldHosts)"
    unfolding a by (auto simp: set_getSortedKeys)
  have 3: "set updatedHosts =
           {h. \<exists>oldR newR. map_of oldHosts h = Some oldR \<and> map_of newHosts h = Some newR \<and>
                (\<not> IsEqual oldR newR \<or>
                 (\<exists>oldVsc newVsc. oldR = VSC oldVsc \<and> newR = VSC newVsc \<and>
                    (HTTPPort newVsc \<noteq> HTTPPort oldVsc \<or> HTTPSPort newVsc \<noteq> HTTPSPort oldVsc \<or>
                     HTTPIPv4 newVsc \<noteq> HTTPIPv4 oldVsc \<or> HTTPIPv6 newVsc \<noteq> HTTPIPv6 oldVsc)))}"
    (is "_ = ?U")
  proof (rule set_eqI)
    fix h
    have "h \<in> set updatedHosts \<longleftrightarrow>
      (\<exists>k \<in> dom (map_of newHosts). \<exists>oldR newR. map_of oldHosts k = Some oldR \<and>
          map_of newHosts k = Some newR \<and> h = k \<and> h \<in> set (updatedEntries oldR newR k))"
    proof -
      have "set updatedHosts = (\<Union>k \<in> dom (map_of newHosts). set (case map_of oldHosts k of
               None \<Rightarrow> []
             | Some oldR \<Rightarrow>
                 (case map_of newHosts k of
                    None \<Rightarrow> []
                  | Some newR \<Rightarrow> updatedEntries oldR newR k)))"
        unfolding u set_concat set_map image_image set_getSortedKeys ..
      then show ?thesis
        by (simp only: UN_iff in_updated_case)
    qed
    also have "\<dots> \<longleftrightarrow> (\<exists>oldR newR. map_of oldHosts h = Some oldR \<and>
          map_of newHosts h = Some newR \<and> h \<in> set (updatedEntries oldR newR h))"
      by blast
    also have "\<dots> \<longleftrightarrow> h \<in> ?U"
      by (simp only: in_updatedEntries mem_Collect_eq simp_thms)
    finally show "h \<in> set updatedHosts \<longleftrightarrow> h \<in> ?U" .
  qed
  have 4: "sorted removedHosts \<and> distinct removedHosts \<and> sorted addedHosts \<and> distinct addedHosts"
    unfolding r a by (simp add: sorted_getSortedKeys sorted_wrt_filter)
  show ?thesis using 1 2 3 4 by blast
qed

theorem detectChangesInHosts_exact_witness:
  "detectChangesInHosts c7_old c7_new = ([''b.io''], [''a.io''], [''c.io'']) \<and>
   set [''b.io''] = dom (map_of c7_old) - dom (map_of c7_new) \<and>
   set [''c.io''] = dom (map_of c7_new) - dom (map_of c7_old)"
proof -
  have h: "detectChangesInHosts c7_old c7_new = ([''b.io''], [''a.io''], [''c.io''])"
    by code_simp
  note t = detectChangesInHosts_exact [OF h]
  from t have r: "set [''b.io''] = dom (map_of c7_old) - dom (map_of c7_new)"
    by (rule conjunct1)
  from t have a: "set [''c.io''] = dom (map_of c7_new) - dom (map_of c7_old)"
    by (rule conjunct2 [THEN conjunct1])
  from h r a show ?thesis by (intro conjI)
qed

section \<open>IsEqual\<close>

text \<open>
  Claim C9, as amended. Two VirtualServerConfigurations are equal under \<open>IsEqual\<close> exactly
  when the VirtualServers agree on namespace, name and generation and they hold the same
  number of VirtualServerRoutes, which agree on namespace, name and generation position
  by position. Two TransportServerConfigurations are equal exactly when the
  TransportServers agree on namespace, name and generation and the configurations have
  the same \<open>ListenerPort\<close>.
\<close>

theorem IsEqual_VS_TS_exact:
  "(IsEqual (VSC a) (VSC b) \<longleftrightarrow>
      Namespace (VS_ObjectMeta (VSC_VirtualServer a)) = Namespace (VS_ObjectMeta (VSC_VirtualServer b)) \<and>
      Name (VS_ObjectMeta (VSC_VirtualServer a)) = Name (VS_ObjectMeta (VSC_VirtualServer b)) \<and>
      Generation (VS_ObjectMeta (VSC_VirtualServer a)) = Generation (VS_ObjectMeta (VSC_VirtualServer b)) \<and>
      length (VirtualServerRoutes a) = length (VirtualServerRoutes b) \<and>
      (\<forall>i < length (VirtualServerRoutes a).
         Namespace (VSR_ObjectMeta (VirtualServerRoutes a ! i)) =
           Namespace (VSR_ObjectMeta (VirtualServerRoutes b ! i)) \<and>
         Name (VSR_ObjectMeta (VirtualServerRoutes a ! i)) =
           Name (VSR_ObjectMeta (VirtualServerRoutes b ! i)) \<and>
         Generation (VSR_ObjectMeta (VirtualServerRoutes a ! i)) =
           Generation (VSR_ObjectMeta (VirtualServerRoutes b ! i)))) \<and>
   (IsEqual (TSC s) (TSC t) \<longleftrightarrow>
      Namespace (TS_ObjectMeta (TSC_TransportServer s)) = Namespace (TS_ObjectMeta (TSC_TransportServer t)) \<and>
      Name (TS_ObjectMeta (TSC_TransportServer s)) = Name (TS_ObjectMeta (TSC_TransportServer t)) \<and>
      Generation (TS_ObjectMeta (TSC_TransportServer s)) = Generation (TS_ObjectMeta (TSC_TransportServer t)) \<and>
      ListenerPort s = ListenerPort t)"
  by (simp add: compareObjectMetas_def list_all2_conv_all_nth)

theorem IsEqual_VS_TS_exact_witness:
  "IsEqual (VSC c9_vs1) (VSC c9_vs2) \<and> 0 < length (VirtualServerRoutes c9_vs1) \<and>
   Generation (VSR_ObjectMeta (VirtualServerRoutes c9_vs1 ! 0)) =
     Generation (VSR_ObjectMeta (VirtualServerRoutes c9_vs2 ! 0)) \<and>
   \<not> IsEqual (TSC c9_ts1) (TSC c9_ts2) \<and> ListenerPort c9_ts1 \<noteq> ListenerPort c9_ts2"
proof -
  have e: "IsEqual (VSC c9_vs1) (VSC c9_vs2)"
    by (simp add: c9_vs1_def c9_vs2_def NewVirtualServerConfiguration_def mkVS_def mkVSR_def
        mkMeta_def compareObjectMetas_def)
  have l: "0 < length (VirtualServerRoutes c9_vs1)"
    by (simp add: c9_vs1_def NewVirtualServerConfiguration_def)
  have p: "ListenerPort c9_ts1 \<noteq> ListenerPort c9_ts2"
    by (simp add: c9_ts1_def c9_ts2_def NewTransportServerConfiguration_def)
  note t = IsEqual_VS_TS_exact [of c9_vs1 c9_vs2 c9_ts1 c9_ts2]
  from t e l have g: "Generation (VSR_ObjectMeta (VirtualServerRoutes c9_vs1 ! 0)) =
     Generation (VSR_ObjectMeta (VirtualServerRoutes c9_vs2 ! 0))"
    by blast
  from t p have n: "\<not> IsEqual (TSC c9_ts1) (TSC c9_ts2)"
    by blast
  from e l g n p show ?thesis by (intro conjI)
qed

text \<open>Two configurations of one TransportServer, before and after its listener is found
  in the GlobalConfiguration: namespace, name and generation agree, the configurations
  are not equal.\<close>

theorem IsEqual_generation_counterexample:
  "Namespace (GetObjectMeta (TSC c9_ts1)) = Namespace (GetObjectMeta (TSC c9_ts2)) \<and>
   Name (GetObjectMeta (TSC c9_ts1)) = Name (GetObjectMeta (TSC c9_ts2)) \<and>
   Generation (GetObjectMeta (TSC c9_ts1)) = Generation (GetObjectMeta (TSC c9_ts2)) \<and>
   \<not> IsEqual (TSC c9_ts1) (TSC c9_ts2)"
  by (simp add: c9_ts1_def c9_ts2_def NewTransportServerConfiguration_def mkTS_def mkMeta_def
      compareObjectMetas_def)

section \<open>The store after a failed validation\<close>

lemma rebuildHosts_store:
  assumes "rebuildHosts env c = Some (changes, problems, c')"
  shows "\<exists>h p. c' = c\<lparr>hosts := h, hostProblems := p\<rparr>"
  using assms unfolding rebuildHosts_def
  by (auto simp: Let_def split: Option.bind_splits prod.splits)

lemma rebuildListenerHosts_store:
  assumes "rebuildListenerHosts c = Some (changes, problems, c')"
  shows "\<exists>h p. c' = c\<lparr>listenerHosts := h, listenerProblems := p\<rparr>"
  using assms unfolding rebuildListenerHosts_def
  by (auto simp: Let_def split: Option.bind_splits prod.splits)


lemma rebuildHosts_sameStore:
  "rebuildHosts env c = Some (changes, problems, c') \<Longrightarrow> sameStore c c'"
  by (drule rebuildHosts_store) (auto simp: sameStore_def)

lemma rebuildListenerHosts_sameStore:
  "rebuildListenerHosts c = Some (changes, problems, c') \<Longrightarrow> sameStore c c'"
  by (drule rebuildListenerHosts_store) (auto simp: sameStore_def)

lemma sameStore_trans: "sameStore a b \<Longrightarrow> sameStore b c \<Longrightarrow> sameStore a c"
  by (simp add: sameStore_def)

lemma rebuildListenersThenHosts_sameStore:
  assumes "rebuildListenersThenHosts env c = Some (changes, problems, c')"
  shows "sameStore c c'"
proof -
  from assms obtain lc lp c1 hc hp where
    l: "rebuildListenerHosts c = Some (lc, lp, c1)" and h: "rebuildHosts env c1 = Some (hc, hp, c')"
    unfolding rebuildListenersThenHosts_def
    by (auto split: Option.bind_splits prod.splits)
  from rebuildListenerHosts_sameStore [OF l] rebuildHosts_sameStore [OF h]
  show ?thesis by (rule sameStore_trans)
qed

lemma rebuildForTransportServer_sameStore:
  assumes "rebuildForTransportServer env c = Some (changes, problems, c')"
  shows "sameStore c c'"
  using assms rebuildListenersThenHosts_sameStore rebuildListenerHosts_sameStore
  unfolding rebuildForTransportServer_def by (cases "isTLSPassthroughEnabled env") auto

text \<open>
  Claim C3, as amended. When an Ingress, a VirtualServer, a VirtualServerRoute or a
  TransportServer passes the ingress-class filter and its validator returns an error, the
  AddOrUpdate mutator leaves no object under its key in the corresponding map of the
  store. \<open>AddOrUpdateGlobalConfiguration\<close> has no ingress-class filter and stores the
  GlobalConfiguration whatever its validator returns; it returns the validation error.
\<close>

theorem failed_validation_store:
  "(hasCorrectIngressClass env (IngressObject ing) \<and> validateIngress env ing = Some e1 \<and>
      AddOrUpdateIngress env ing c = Some (changes1, problems1, c1)
      \<longrightarrow> map_of (ingresses c1) (getResourceKey (Ingress_ObjectMeta ing)) = None) \<and>
   (hasCorrectIngressClass env (VirtualServerObject vs) \<and> ValidateVirtualServer env vs = Some e2 \<and>
      AddOrUpdateVirtualServer env vs c = Some (changes2, problems2, c2)
      \<longrightarrow> map_of (virtualServers c2) (getResourceKey (VS_ObjectMeta vs)) = None) \<and>
   (hasCorrectIngressClass env (VirtualServerRouteObject vsr) \<and>
      ValidateVirtualServerRoute env vsr = Some e3 \<and>
      AddOrUpdateVirtualServerRoute env vsr c = Some (changes3, problems3, c3)
      \<longrightarrow> map_of (virtualServerRoutes c3) (getResourceKey (VSR_ObjectMeta vsr)) = None) \<and>
   (hasCorrectIngressClass env (TransportServerObject ts) \<and>
      ValidateTransportServer env ts = Some e4 \<and>
      AddOrUpdateTransportServer env ts c = Some (changes4, problems4, c4)
      \<longrightarrow> map_of (transportServers c4) (getResourceKey (TS_ObjectMeta ts)) = None) \<and>
   (AddOrUpdateGlobalConfiguration env gc c = Some (changes5, problems5, err, c5)
      \<longrightarrow> globalConfiguration c5 = Some gc \<and> err = ValidateGlobalConfiguration env gc)"
proof (intro conjI impI)
  assume a: "hasCorrectIngressClass env (IngressObject ing) \<and> validateIngress env ing = Some e1 \<and>
      AddOrUpdateIngress env ing c = Some (changes1, problems1, c1)"
  then obtain ch pr where
    "rebuildHosts env (c\<lparr>ingresses := AList.delete (getResourceKey (Ingress_ObjectMeta ing)) (ingresses c)\<rparr>)
       = Some (ch, pr, c1)"
    unfolding AddOrUpdateIngress_def
    by (auto simp: Let_def split: Option.bind_splits prod.splits)
  from rebuildHosts_sameStore [OF this]
  show "map_of (ingresses c1) (getResourceKey (Ingress_ObjectMeta ing)) = None"
    by (simp add: sameStore_def delete_conv')
next
  assume a: "hasCorrectIngressClass env (VirtualServerObject vs) \<and> ValidateVirtualServer env vs = Some e2 \<and>
      AddOrUpdateVirtualServer env vs c = Some (changes2, problems2, c2)"
  then obtain ch pr where
    "rebuildHosts env (c\<lparr>virtualServers := AList.delete (getResourceKey (VS_ObjectMeta vs)) (virtualServers c)\<rparr>)
       = Some (ch, pr, c2)"
    unfolding AddOrUpdateVirtualServer_def
    by (auto simp: Let_def split: Option.bind_splits prod.splits)
  from rebuildHosts_sameStore [OF this]
  show "map_of (virtualServers c2) (getResourceKey (VS_ObjectMeta vs)) = None"
    by (simp add: sameStore_def delete_conv')
next
  assume a: "hasCorrectIngressClass env (VirtualServerRouteObject vsr) \<and>
      ValidateVirtualServerRoute env vsr = Some e3 \<and>
      AddOrUpdateVirtualServerRoute env vsr c = Some (changes3, problems3, c3)"
  then obtain ch pr where
    "rebuildHosts env (c\<lparr>virtualServerRoutes := AList.delete (getResourceKey (VSR_ObjectMeta vsr)) (virtualServerRoutes c)\<rparr>)
       = Some (ch, pr, c3)"
    unfolding AddOrUpdateVirtualServerRoute_def
    by (auto simp: Let_def split: Option.bind_splits prod.splits)
  from rebuildHosts_sameStore [OF this]
  show "map_of (virtualServerRoutes c3) (getResourceKey (VSR_ObjectMeta vsr)) = None"
    by (simp add: sameStore_def delete_conv')
next
  assume a: "hasCorrectIngressClass env (TransportServerObject ts) \<and>
      ValidateTransportServer env ts = Some e4 \<and>
      AddOrUpdateTransportServer env ts c = Some (changes4, problems4, c4)"
  then obtain ch pr where
    "rebuildForTransportServer env (c\<lparr>transportServers := AList.delete (getResourceKey (TS_ObjectMeta ts)) (transportServers c)\<rparr>)
       = Some (ch, pr, c4)"
    unfolding AddOrUpdateTransportServer_def
    by (auto simp: Let_def split: Option.bind_splits prod.splits)
  from rebuildForTransportServer_sameStore [OF this]
  show "map_of (transportServers c4) (getResourceKey (TS_ObjectMeta ts)) = None"
    by (simp add: sameStore_def delete_conv')
next
  assume a: "AddOrUpdateGlobalConfiguration env gc c = Some (changes5, problems5, err, c5)"
  then have r: "rebuildListenersThenHosts env (setGlobalConfigListenerMap (c\<lparr>globalConfiguration := Some gc\<rparr>))
       = Some (changes5, problems5, c5)"
    unfolding AddOrUpdateGlobalConfiguration_def
    by (auto simp: Let_def split: Option.bind_splits prod.splits)
  from rebuildListenersThenHosts_sameStore [OF r]
  show "globalConfiguration c5 = Some gc"
    by (simp add: sameStore_def setGlobalConfigListenerMap_def)
next
  assume a: "AddOrUpdateGlobalConfiguration env gc c = Some (changes5, problems5, err, c5)"
  then show "err = ValidateGlobalConfiguration env gc"
    unfolding AddOrUpdateGlobalConfiguration_def
    by (auto simp: Let_def split: Option.bind_splits prod.splits)
qed

theorem failed_validation_store_witness:
  "hasCorrectIngressClass scenarioEnv (VirtualServerObject c3_vs) \<and>
   ValidateVirtualServer scenarioEnv c3_vs = Some ''spec.host: Required value'' \<and>
   map_of (virtualServers c3_c) (getResourceKey (VS_ObjectMeta c3_vs)) = Some c3_vs_valid \<and>
   AddOrUpdateVirtualServer scenarioEnv c3_vs c3_c \<noteq> None \<and>
   map_of (virtualServers (stateOf (AddOrUpdateVirtualServer scenarioEnv c3_vs c3_c)))
     (getResourceKey (VS_ObjectMeta c3_vs)) = None"
proof -
  have 1: "hasCorrectIngressClass scenarioEnv (VirtualServerObject c3_vs)"
    by (simp add: scenarioEnv_def)
  have 2: "ValidateVirtualServer scenarioEnv c3_vs = Some ''spec.host: Required value''"
    by (simp add: scenarioEnv_def c3_vs_def mkVS_def)
  have 0: "map_of (virtualServers c3_c) (getResourceKey (VS_ObjectMeta c3_vs)) = Some c3_vs_valid"
    by code_simp
  have 3: "AddOrUpdateVirtualServer scenarioEnv c3_vs c3_c \<noteq> None"
    by code_simp
  then obtain changes problems c' where
    r: "AddOrUpdateVirtualServer scenarioEnv c3_vs c3_c = Some (changes, problems, c')"
    by (cases "AddOrUpdateVirtualServer scenarioEnv c3_vs c3_c") auto
  note t = failed_validation_store [where env = scenarioEnv and vs = c3_vs and c = c3_c
        and ?e2.0 = "''spec.host: Required value''" and ?changes2.0 = changes and ?c2.0 = c'
        and ?problems2.0 = problems, THEN conjunct2, THEN conjunct1]
  from t 1 2 r
  have "map_of (virtualServers c') (getResourceKey (VS_ObjectMeta c3_vs)) = None"
    by blast
  then have 4: "map_of (virtualServers (stateOf (AddOrUpdateVirtualServer scenarioEnv c3_vs c3_c)))
     (getResourceKey (VS_ObjectMeta c3_vs)) = None"
    by (simp add: r stateOf_def)
  from 1 2 0 3 4 show ?thesis by (intro conjI)
qed

text \<open>A GlobalConfiguration with a listener on port 0 fails validation and is stored.\<close>

theorem failed_validation_globalConfiguration_counterexample:
  "ValidateGlobalConfiguration scenarioEnv c3_gc = Some ''spec.listeners.port: Invalid value'' \<and>
   map_option (\<lambda>(changes, problems, err, c'). (err, globalConfiguration c'))
     (AddOrUpdateGlobalConfiguration scenarioEnv c3_gc NewConfiguration) =
   Some (Some ''spec.listeners.port: Invalid value'', Some c3_gc)"
  by code_simp

section \<open>Problems of the listener rebuild\<close>

lemma storedUnderOwnKey_iff:
  "storedUnderOwnKey meta m \<longleftrightarrow>
     (\<forall>key obj. map_of m key = Some obj \<longrightarrow> key = getResourceKey (meta obj))"
proof
  assume a: "storedUnderOwnKey meta m"
  show "\<forall>key obj. map_of m key = Some obj \<longrightarrow> key = getResourceKey (meta obj)"
  proof (intro allI impI)
    fix key obj assume s: "map_of m key = Some obj"
    then have "key \<in> set (map fst m)"
      by (metis domI dom_map_of_conv_image_fst set_map)
    with a s show "key = getResourceKey (meta obj)"
      by (auto simp: storedUnderOwnKey_def list_all_iff)
  qed
next
  assume "\<forall>key obj. map_of m key = Some obj \<longrightarrow> key = getResourceKey (meta obj)"
  then show "storedUnderOwnKey meta m"
    by (auto simp: storedUnderOwnKey_def list_all_iff split: option.splits)
qed

lemma tsConfigsOf_iff:
  "tsConfigsOf c tsConfigs \<longleftrightarrow>
     distinct (map fst tsConfigs) \<and>
     (\<forall>key tsc. map_of tsConfigs key = Some tsc \<longrightarrow>
        map_of (transportServers c) key = Some (TSC_TransportServer tsc) \<and>
        TS_Listener_Protocol (TSC_TransportServer tsc) \<noteq> TLSPassthroughListenerProtocol)"
proof (cases "distinct (map fst tsConfigs)")
  case True
  then have "\<And>key tsc. map_of tsConfigs key = Some tsc \<longleftrightarrow> (key, tsc) \<in> set tsConfigs"
    by simp
  then show ?thesis
    unfolding tsConfigsOf_def list_all_iff by fastforce
next
  case False
  then show ?thesis by (simp add: tsConfigsOf_def)
qed

lemma map_of_addTSWarningAt:
  "map_of (addTSWarningAt p w m) k =
     (if k = p then map_option (\<lambda>tsc. tsc\<lparr>TSC_Warnings := TSC_Warnings tsc @ [w]\<rparr>) (map_of m k)
      else map_of m k)"
  by (cases "map_of m p") (simp_all add: addTSWarningAt_def update_conv')

lemma distinct_addTSWarningAt:
  "distinct (map fst m) \<Longrightarrow> distinct (map fst (addTSWarningAt p w m))"
  by (cases "map_of m p") (simp_all add: addTSWarningAt_def distinct_update)

lemma tsConfigsOf_addTSWarningAt:
  "tsConfigsOf c m \<Longrightarrow> tsConfigsOf c (addTSWarningAt p w m)"
  unfolding tsConfigsOf_iff
  by (auto simp: map_of_addTSWarningAt distinct_addTSWarningAt split: if_splits)

lemma tsConfigsOf_update:
  "tsConfigsOf c m \<Longrightarrow> map_of (transportServers c) key = Some (TSC_TransportServer tsc) \<Longrightarrow>
   TS_Listener_Protocol (TSC_TransportServer tsc) \<noteq> TLSPassthroughListenerProtocol \<Longrightarrow>
   tsConfigsOf c (AList.update key tsc m)"
  unfolding tsConfigsOf_iff
  by (auto simp: update_conv' distinct_update split: if_splits)


lemma dom_map_of_addTSWarningAt: "dom (map_of (addTSWarningAt p w m)) = dom (map_of m)"
  by (auto simp: map_of_addTSWarningAt dom_def split: if_splits)

lemma buildListenerStep_tsConfigsOf:
  assumes "buildListenerStep c key (lh, tscs) = Some (lh', tscs')" and "tsConfigsOf c tscs"
  shows "tsConfigsOf c tscs'"
proof -
  from assms(1) obtain ts where ts: "map_of (transportServers c) key = Some ts"
    unfolding buildListenerStep_def by (auto split: Option.bind_splits)
  show ?thesis
  proof (cases "TS_Listener_Protocol ts = TLSPassthroughListenerProtocol")
    case True
    with assms ts show ?thesis unfolding buildListenerStep_def by simp
  next
    case False
    have u: "\<And>tsc. TSC_TransportServer tsc = ts \<Longrightarrow> tsConfigsOf c (AList.update key tsc tscs)"
      using assms(2) ts False by (intro tsConfigsOf_update) simp_all
    from assms(1) ts False show ?thesis
      unfolding buildListenerStep_def Let_def
      by (auto simp: NewTransportServerConfiguration_def
               split: option.splits Option.bind_splits if_splits
               intro!: tsConfigsOf_addTSWarningAt u)
  qed
qed

lemma buildListenerStep_dom:
  assumes "buildListenerStep c key (lh, tscs) = Some (lh', tscs')"
  shows "dom (map_of tscs') = dom (map_of tscs) \<union>
       {k. k = key \<and> (\<exists>ts. map_of (transportServers c) key = Some ts \<and>
              TS_Listener_Protocol ts \<noteq> TLSPassthroughListenerProtocol)}"
proof -
  from assms(1) obtain ts where ts: "map_of (transportServers c) key = Some ts"
    unfolding buildListenerStep_def by (auto split: Option.bind_splits)
  show ?thesis
  proof (cases "TS_Listener_Protocol ts = TLSPassthroughListenerProtocol")
    case True
    with assms ts show ?thesis unfolding buildListenerStep_def by simp
  next
    case False
    have "\<And>k. (map_of tscs' k \<noteq> None) = (k = key \<or> map_of tscs k \<noteq> None)"
      using assms(1) ts False
      unfolding buildListenerStep_def Let_def
      by (auto simp: map_of_addTSWarningAt update_conv'
               split: option.splits Option.bind_splits if_splits)
    then have "dom (map_of tscs') = insert key (dom (map_of tscs))"
      unfolding dom_def by blast
    with ts False show ?thesis by auto
  qed
qed

lemma buildListenerStep_tsConfigs:
  assumes "buildListenerStep c key (lh, tscs) = Some (lh', tscs')" and "tsConfigsOf c tscs"
  shows "tsConfigsOf c tscs' \<and>
     dom (map_of tscs') = dom (map_of tscs) \<union>
       {k. k = key \<and> (\<exists>ts. map_of (transportServers c) key = Some ts \<and>
              TS_Listener_Protocol ts \<noteq> TLSPassthroughListenerProtocol)}"
  using buildListenerStep_tsConfigsOf [OF assms] buildListenerStep_dom [OF assms(1)] by simp

lemma buildListenerLoop_tsConfigs:
  assumes "buildListenerLoop c keys st = Some st'" and "tsConfigsOf c (snd st)"
  shows "tsConfigsOf c (snd st') \<and>
     dom (map_of (snd st')) = dom (map_of (snd st)) \<union>
       {k \<in> set keys. \<exists>ts. map_of (transportServers c) k = Some ts \<and>
              TS_Listener_Protocol ts \<noteq> TLSPassthroughListenerProtocol}"
  using assms
proof (induction keys arbitrary: st)
  case Nil
  then show ?case by simp
next
  case (Cons key keys)
  from Cons.prems(1) obtain st1 where
    s: "buildListenerStep c key st = Some st1" and l: "buildListenerLoop c keys st1 = Some st'"
    by (auto split: Option.bind_splits)
  obtain lh tscs where st: "st = (lh, tscs)" by (cases st)
  obtain lh1 tscs1 where st1: "st1 = (lh1, tscs1)" by (cases st1)
  from buildListenerStep_tsConfigs [OF s [unfolded st st1]] Cons.prems(2) st
  have 1: "tsConfigsOf c tscs1" and
    2: "dom (map_of tscs1) = dom (map_of tscs) \<union>
       {k. k = key \<and> (\<exists>ts. map_of (transportServers c) key = Some ts \<and>
              TS_Listener_Protocol ts \<noteq> TLSPassthroughListenerProtocol)}"
    by simp_all
  from Cons.IH [OF l] 1 st1
  have 3: "tsConfigsOf c (snd st')" and
    4: "dom (map_of (snd st')) = dom (map_of tscs1) \<union>
       {k \<in> set keys. \<exists>ts. map_of (transportServers c) k = Some ts \<and>
              TS_Listener_Protocol ts \<noteq> TLSPassthroughListenerProtocol}"
    by simp_all
  from 2 4 st have "dom (map_of (snd st')) = dom (map_of (snd st)) \<union>
       {k \<in> set (key # keys). \<exists>ts. map_of (transportServers c) k = Some ts \<and>
              TS_Listener_Protocol ts \<noteq> TLSPassthroughListenerProtocol}"
    by auto
  with 3 show ?case by simp
qed

text \<open>The TransportServerConfigurations of the listener rebuild: one for each stored
  TransportServer that is not TLS passthrough, under the key of the store.\<close>

lemma buildListenerHostsAndTSConfigurations_tsConfigs:
  assumes "buildListenerHostsAndTSConfigurations c = Some (lh, tscs)"
  shows "tsConfigsOf c tscs"
    and "map_of (transportServers c) key = Some ts \<Longrightarrow>
         TS_Listener_Protocol ts \<noteq> TLSPassthroughListenerProtocol \<Longrightarrow>
         \<exists>tsc. map_of tscs key = Some tsc \<and> TSC_TransportServer tsc = ts"
proof -
  have e: "tsConfigsOf c (snd ([], []))" by (simp add: tsConfigsOf_def)
  note r = buildListenerLoop_tsConfigs [OF assms [unfolded buildListenerHostsAndTSConfigurations_def] e]
  from r show t: "tsConfigsOf c tscs" by simp
  assume a: "map_of (transportServers c) key = Some ts"
     "TS_Listener_Protocol ts \<noteq> TLSPassthroughListenerProtocol"
  from a have "key \<in> set (getSortedKeys (transportServers c))"
    by (auto simp: set_getSortedKeys)
  with r a have "key \<in> dom (map_of tscs)" by auto
  then obtain tsc where m: "map_of tscs key = Some tsc" by blast
  with t a have "TSC_TransportServer tsc = ts" unfolding tsConfigsOf_iff by auto
  with m show "\<exists>tsc. map_of tscs key = Some tsc \<and> TSC_TransportServer tsc = ts" by blast
qed


lemma addProblemForTSConfig_other:
  "K \<noteq> GetKeyWithKind (TSC tsc) \<Longrightarrow>
   map_of (addProblemForTSConfig lh tsc ps) K = map_of ps K"
  by (simp add: addProblemForTSConfig_def Let_def update_conv' split: option.splits)

lemma addProblemForTSConfig_missing:
  "map_of lh \<lparr>ListenerName = TS_Listener_Name (TSC_TransportServer tsc),
              Host = TS_Host (TSC_TransportServer tsc)\<rparr> = None \<Longrightarrow>
   map_of (addProblemForTSConfig lh tsc ps) (GetKeyWithKind (TSC tsc)) =
     Some (listenerProblem (TSC_TransportServer tsc)
             (''Listener '' @ TS_Listener_Name (TSC_TransportServer tsc)
                @ '' doesn'' @ [CHR 0x27] @ ''t exist''))"
  by (simp add: addProblemForTSConfig_def Let_def update_conv')

lemma fold_addProblem_other:
  "K \<notin> (\<lambda>(k, tsc). GetKeyWithKind (TSC tsc)) ` set xs \<Longrightarrow>
   map_of (fold (\<lambda>(k, tsc) ps. addProblemForTSConfig lh tsc ps) xs ps) K = map_of ps K"
proof (induction xs arbitrary: ps)
  case Nil
  then show ?case by simp
next
  case (Cons x xs)
  obtain k tsc where x: "x = (k, tsc)" by (cases x)
  from Cons.prems x have 1: "K \<noteq> GetKeyWithKind (TSC tsc)"
    and 2: "K \<notin> (\<lambda>(k, tsc). GetKeyWithKind (TSC tsc)) ` set xs" by auto
  from Cons.IH [OF 2] addProblemForTSConfig_other [OF 1] x show ?case by simp
qed

lemma fold_addProblem_missing:
  assumes "distinct (map (\<lambda>(k, tsc). GetKeyWithKind (TSC tsc)) xs)"
    and "(key, tsc) \<in> set xs"
    and "map_of lh \<lparr>ListenerName = TS_Listener_Name (TSC_TransportServer tsc),
              Host = TS_Host (TSC_TransportServer tsc)\<rparr> = None"
  shows "map_of (fold (\<lambda>(k, tsc) ps. addProblemForTSConfig lh tsc ps) xs ps)
           (GetKeyWithKind (TSC tsc)) =
     Some (listenerProblem (TSC_TransportServer tsc)
             (''Listener '' @ TS_Listener_Name (TSC_TransportServer tsc)
                @ '' doesn'' @ [CHR 0x27] @ ''t exist''))"
  using assms(1,2)
proof (induction xs arbitrary: ps)
  case Nil
  then show ?case by simp
next
  case (Cons x xs)
  obtain k' tsc' where x: "x = (k', tsc')" by (cases x)
  from Cons.prems(1) x have d: "distinct (map (\<lambda>(k, tsc). GetKeyWithKind (TSC tsc)) xs)"
    and n: "GetKeyWithKind (TSC tsc') \<notin> (\<lambda>(k, tsc). GetKeyWithKind (TSC tsc)) ` set xs"
    by auto
  show ?case
  proof (cases "(key, tsc) = x")
    case True
    with x have e: "tsc' = tsc" by simp
    from fold_addProblem_other [OF n [unfolded e]] addProblemForTSConfig_missing [OF assms(3)] x e
    show ?thesis by simp
  next
    case False
    with Cons.prems(2) have "(key, tsc) \<in> set xs" by simp
    from Cons.IH [OF d this] x show ?thesis by simp
  qed
qed

lemma tsConfigs_problem_keys:
  assumes "storedUnderOwnKey TS_ObjectMeta (transportServers c)" and "tsConfigsOf c tscs"
  shows "distinct (map (\<lambda>(k, tsc). GetKeyWithKind (TSC tsc)) tscs)"
proof -
  have k: "\<And>k tsc. (k, tsc) \<in> set tscs \<Longrightarrow>
             GetKeyWithKind (TSC tsc) = transportServerKind @ ''/'' @ k"
  proof -
    fix k tsc assume "(k, tsc) \<in> set tscs"
    with assms(2) have "map_of (transportServers c) k = Some (TSC_TransportServer tsc)"
      unfolding tsConfigsOf_def list_all_iff by auto
    with assms(1) have "k = getResourceKey (TS_ObjectMeta (TSC_TransportServer tsc))"
      unfolding storedUnderOwnKey_iff by blast
    then show "GetKeyWithKind (TSC tsc) = transportServerKind @ ''/'' @ k" by simp
  qed
  then have eq: "map (\<lambda>(k, tsc). GetKeyWithKind (TSC tsc)) tscs =
             map (\<lambda>k. transportServerKind @ ''/'' @ k) (map fst tscs)"
    by auto
  from assms(2) have "distinct (map fst tscs)" by (simp add: tsConfigsOf_def)
  then have d: "distinct (map (\<lambda>k. transportServerKind @ ''/'' @ k) (map fst tscs))"
    by (simp add: distinct_map inj_on_def)
  show ?thesis unfolding eq by (rule d)
qed

lemma in_detectChangesInProblems:
  "p \<in> set (detectChangesInProblems newProblems oldProblems) \<longleftrightarrow>
     (\<exists>key. map_of newProblems key = Some p \<and>
        (case map_of oldProblems key of
           None \<Rightarrow> True
         | Some oldP \<Rightarrow> \<not> compareConfigurationProblems p oldP))"
proof -
  have "\<And>key. (p \<in> set (case map_of newProblems key of
          None \<Rightarrow> []
        | Some newP \<Rightarrow>
            (case map_of oldProblems key of
               None \<Rightarrow> [newP]
             | Some oldP \<Rightarrow> if \<not> compareConfigurationProblems newP oldP then [newP] else []))) =
      (map_of newProblems key = Some p \<and>
        (case map_of oldProblems key of
           None \<Rightarrow> True
         | Some oldP \<Rightarrow> \<not> compareConfigurationProblems p oldP))"
    by (auto split: option.splits)
  then have "p \<in> set (detectChangesInProblems newProblems oldProblems) \<longleftrightarrow>
     (\<exists>key \<in> dom (map_of newProblems). map_of newProblems key = Some p \<and>
        (case map_of oldProblems key of
           None \<Rightarrow> True
         | Some oldP \<Rightarrow> \<not> compareConfigurationProblems p oldP))"
    unfolding detectChangesInProblems_def set_concat set_map image_image set_getSortedKeys
    by (simp only: UN_iff)
  then show ?thesis by blast
qed


subsection \<open>The listener rebuild returns\<close>

lemma set_update_subset:
  "set (AList.update k v al) \<subseteq> insert (k, v) (set al)"
  by (induction al) auto

lemma pointersValid_update_ptr:
  "pointersValid ptrs objects \<Longrightarrow> map_of objects p \<noteq> None \<Longrightarrow>
   pointersValid (AList.update k p ptrs) objects"
  unfolding pointersValid_def using set_update_subset [of k p ptrs] by auto

lemma pointersValid_mono:
  "pointersValid ptrs objects \<Longrightarrow> dom (map_of objects) \<subseteq> dom (map_of objects') \<Longrightarrow>
   pointersValid ptrs objects'"
  unfolding pointersValid_def by (fastforce simp: dom_def)

lemma pointersValid_lookup:
  "pointersValid ptrs objects \<Longrightarrow> map_of ptrs k = Some p \<Longrightarrow> map_of objects p \<noteq> None"
  unfolding pointersValid_def by (auto dest: map_of_SomeD)

lemma resolvePointers_Some:
  "pointersValid ptrs objects \<Longrightarrow> \<exists>r. resolvePointers ptrs objects = Some r"
proof (induction ptrs)
  case Nil
  then show ?case by simp
next
  case (Cons x ptrs)
  obtain k p where x: "x = (k, p)" by (cases x)
  from Cons.prems x have "map_of objects p \<noteq> None" and "pointersValid ptrs objects"
    by (auto simp: pointersValid_def)
  with Cons.IH x show ?case by auto
qed

lemma resolvePointers_map_of:
  "resolvePointers ptrs objects = Some r \<Longrightarrow>
   map_of r k = (case map_of ptrs k of None \<Rightarrow> None | Some p \<Rightarrow> map_of objects p)"
proof (induction ptrs arbitrary: r)
  case Nil
  then show ?case by simp
next
  case (Cons x ptrs)
  obtain k' p where x: "x = (k', p)" by (cases x)
  from Cons.prems x obtain v r1 where v: "map_of objects p = Some v"
    and r1: "resolvePointers ptrs objects = Some r1" and r: "r = (k', v) # r1"
    by (auto split: Option.bind_splits)
  from Cons.IH [OF r1] x v r show ?case by simp
qed

lemma resolvePointers_keys:
  "resolvePointers ptrs objects = Some r \<Longrightarrow> map fst r = map fst ptrs"
proof (induction ptrs arbitrary: r)
  case Nil
  then show ?case by simp
next
  case (Cons x ptrs)
  obtain k' p where x: "x = (k', p)" by (cases x)
  from Cons.prems x obtain v r1 where
    r1: "resolvePointers ptrs objects = Some r1" and r: "r = (k', v) # r1"
    by (auto split: Option.bind_splits)
  from Cons.IH [OF r1] x r show ?case by simp
qed


lemma buildListenerStep_hosts:
  assumes "buildListenerStep c key (lh, tscs) = Some (lh', tscs')"
  shows "lh' = lh \<or>
     (\<exists>lk ts. lh' = AList.update lk key lh \<and> map_of (transportServers c) key = Some ts \<and>
        TS_Listener_Protocol ts \<noteq> TLSPassthroughListenerProtocol \<and> globalConfiguration c \<noteq> None)"
  using assms unfolding buildListenerStep_def Let_def
  by (auto split: option.splits Option.bind_splits if_splits)

lemma buildListenerStep_pointersValid:
  assumes "buildListenerStep c key (lh, tscs) = Some (lh', tscs')" and "pointersValid lh tscs"
  shows "pointersValid lh' tscs'"
proof -
  note d = buildListenerStep_dom [OF assms(1)]
  then have sub: "dom (map_of tscs) \<subseteq> dom (map_of tscs')" by auto
  from pointersValid_mono [OF assms(2) sub] have v: "pointersValid lh tscs'" .
  from buildListenerStep_hosts [OF assms(1)] show ?thesis
  proof
    assume "lh' = lh"
    with v show ?thesis by simp
  next
    assume "\<exists>lk ts. lh' = AList.update lk key lh \<and> map_of (transportServers c) key = Some ts \<and>
        TS_Listener_Protocol ts \<noteq> TLSPassthroughListenerProtocol \<and> globalConfiguration c \<noteq> None"
    then obtain lk ts where l: "lh' = AList.update lk key lh"
      and t: "map_of (transportServers c) key = Some ts"
         "TS_Listener_Protocol ts \<noteq> TLSPassthroughListenerProtocol" by blast
    from d t have "key \<in> dom (map_of tscs')" by auto
    then have "map_of tscs' key \<noteq> None" by auto
    from pointersValid_update_ptr [OF v this] l show ?thesis by simp
  qed
qed

lemma buildListenerStep_Some:
  assumes "map_of (transportServers c) key \<noteq> None" and "pointersValid lh tscs"
  shows "\<exists>st'. buildListenerStep c key (lh, tscs) = Some st'"
proof -
  from assms(1) obtain ts where ts: "map_of (transportServers c) key = Some ts" by auto
  have h: "\<And>lk p tsc. map_of lh lk = Some p \<Longrightarrow> map_of (AList.update key tsc tscs) p \<noteq> None"
    using pointersValid_lookup [OF assms(2)] by (auto simp: update_conv')
  show ?thesis
  proof (cases "TS_Listener_Protocol ts = TLSPassthroughListenerProtocol")
    case True
    with ts show ?thesis by (simp add: buildListenerStep_def)
  next
    case np: False
    show ?thesis
    proof (cases "globalConfiguration c")
      case None
      with ts np show ?thesis by (simp add: buildListenerStep_def Let_def)
    next
      case (Some gc)
      note gc = this
      show ?thesis
      proof (cases "findListener (GC_Listeners gc) ts")
        case None
        with ts np gc show ?thesis by (simp add: buildListenerStep_def Let_def)
      next
        case (Some listener)
        note l = this
        show ?thesis
        proof (cases "map_of lh \<lparr>ListenerName = L_Name listener, Host = TS_Host ts\<rparr>")
          case None
          with ts np gc l show ?thesis by (simp add: buildListenerStep_def Let_def)
        next
          case (Some holderPtr)
          from h [OF Some] obtain holder where
            "map_of (AList.update key
               ((NewTransportServerConfiguration ts)\<lparr>ListenerPort := L_Port listener,
                  TSC_IPv4 := L_IPv4 listener, TSC_IPv6 := L_IPv6 listener\<rparr>) tscs) holderPtr
             = Some holder"
            by blast
          with ts np gc l Some show ?thesis by (simp add: buildListenerStep_def Let_def)
        qed
      qed
    qed
  qed
qed

lemma buildListenerLoop_Some:
  assumes "\<forall>key \<in> set keys. map_of (transportServers c) key \<noteq> None"
    and "pointersValid (fst st) (snd st)"
  shows "\<exists>st'. buildListenerLoop c keys st = Some st' \<and> pointersValid (fst st') (snd st')"
  using assms
proof (induction keys arbitrary: st)
  case Nil
  then show ?case by simp
next
  case (Cons key keys)
  obtain lh tscs where st: "st = (lh, tscs)" by (cases st)
  from Cons.prems st have k: "map_of (transportServers c) key \<noteq> None" and v: "pointersValid lh tscs"
    by simp_all
  from buildListenerStep_Some [OF k v] obtain st1 where
    s: "buildListenerStep c key (lh, tscs) = Some st1" by blast
  obtain lh1 tscs1 where st1: "st1 = (lh1, tscs1)" by (cases st1)
  from buildListenerStep_pointersValid [OF s [unfolded st1] v] st1
  have v1: "pointersValid (fst st1) (snd st1)" by simp
  from Cons.prems(1) have "\<forall>key \<in> set keys. map_of (transportServers c) key \<noteq> None" by simp
  from Cons.IH [OF this v1] s st show ?case by simp
qed

lemma buildListenerHostsAndTSConfigurations_Some:
  "\<exists>lh tscs. buildListenerHostsAndTSConfigurations c = Some (lh, tscs) \<and> pointersValid lh tscs"
proof -
  have k: "\<forall>key \<in> set (getSortedKeys (transportServers c)). map_of (transportServers c) key \<noteq> None"
    by (auto simp: set_getSortedKeys)
  have v: "pointersValid (fst ([], [])) (snd ([], []))" by (simp add: pointersValid_def)
  from buildListenerLoop_Some [OF k v] show ?thesis
    unfolding buildListenerHostsAndTSConfigurations_def by auto
qed

lemma removedChanges_Some:
  "\<forall>h \<in> set hs. map_of old h \<noteq> None \<Longrightarrow> \<exists>r. removedChanges hs old = Some r"
  by (induction hs) auto

lemma addedChanges_Some:
  "\<forall>h \<in> set hs. map_of new h \<noteq> None \<Longrightarrow> \<exists>r. addedChanges hs new = Some r"
  by (induction hs) auto

lemma updatedChanges_Some:
  "\<forall>h \<in> set hs. map_of old h \<noteq> None \<and> map_of new h \<noteq> None \<Longrightarrow>
   \<exists>r. updatedChanges hs old new = Some r"
  by (induction hs) auto

lemma createResourceChanges_Some:
  assumes "\<forall>h \<in> set removed. map_of old h \<noteq> None"
    and "\<forall>h \<in> set updated. map_of old h \<noteq> None \<and> map_of new h \<noteq> None"
    and "\<forall>h \<in> set added. map_of new h \<noteq> None"
  shows "\<exists>r. createResourceChanges removed updated added old new = Some r"
proof -
  from removedChanges_Some [OF assms(1)] obtain r1 where 1: "removedChanges removed old = Some r1"
    by blast
  from updatedChanges_Some [OF assms(2)] obtain r2 where 2: "updatedChanges updated old new = Some r2"
    by blast
  from addedChanges_Some [OF assms(3)] obtain r3 where 3: "addedChanges added new = Some r3"
    by blast
  from 1 2 3 show ?thesis unfolding createResourceChanges_def by (cases r2) simp
qed

lemma set_getSortedListenerHostKeys:
  "set (getSortedListenerHostKeys m) = dom (map_of m)"
  by (simp add: getSortedListenerHostKeys_def dom_map_of_conv_image_fst)

lemma map_of_TSC_map:
  "map_of (map (\<lambda>(l, tsc). (l, TSC tsc)) m) k = map_option TSC (map_of m k)"
  by (induction m) auto

lemma createResourceChangesForListeners_Some:
  assumes "detectChangesInListenerHosts old new = (removed, updated, added)"
  shows "\<exists>r. createResourceChangesForListeners removed updated added old new = Some r"
proof -
  from assms have r: "removed = filter (\<lambda>key. map_of new key = None) (getSortedListenerHostKeys old)"
    and a: "added = filter (\<lambda>key. map_of old key = None) (getSortedListenerHostKeys new)"
    and u: "updated = filter (\<lambda>key.
             case map_of old key of
               None \<Rightarrow> False
             | Some oldConfig \<Rightarrow>
                 (case map_of new key of
                    None \<Rightarrow> False
                  | Some newConfig \<Rightarrow> \<not> IsEqual (TSC oldConfig) (TSC newConfig)))
           (getSortedListenerHostKeys new)"
    by (simp_all add: detectChangesInListenerHosts_def Let_def)
  show ?thesis
    unfolding createResourceChangesForListeners_def
  proof (rule createResourceChanges_Some)
    show "\<forall>h\<in>set removed. map_of (map (\<lambda>(l, tsc). (l, TSC tsc)) old) h \<noteq> None"
      unfolding r by (auto simp: map_of_TSC_map set_getSortedListenerHostKeys)
    show "\<forall>h\<in>set added. map_of (map (\<lambda>(l, tsc). (l, TSC tsc)) new) h \<noteq> None"
      unfolding a by (auto simp: map_of_TSC_map set_getSortedListenerHostKeys)
    show "\<forall>h\<in>set updated. map_of (map (\<lambda>(l, tsc). (l, TSC tsc)) old) h \<noteq> None \<and>
            map_of (map (\<lambda>(l, tsc). (l, TSC tsc)) new) h \<noteq> None"
      unfolding u by (auto simp: map_of_TSC_map split: option.splits)
  qed
qed

text \<open>The listener rebuild does not panic.\<close>

lemma rebuildListenerHosts_Some: "\<exists>r. rebuildListenerHosts c = Some r"
proof -
  from buildListenerHostsAndTSConfigurations_Some obtain lh tscs where
    b: "buildListenerHostsAndTSConfigurations c = Some (lh, tscs)" and v: "pointersValid lh tscs"
    by blast
  from resolvePointers_Some [OF v] obtain nlh where n: "resolvePointers lh tscs = Some nlh" by blast
  obtain removed updated added where
    d: "detectChangesInListenerHosts (listenerHosts c) nlh = (removed, updated, added)"
    by (cases "detectChangesInListenerHosts (listenerHosts c) nlh") auto
  from createResourceChangesForListeners_Some [OF d] obtain changes where
    "createResourceChangesForListeners removed updated added (listenerHosts c) nlh = Some changes"
    by blast
  with b n d show ?thesis unfolding rebuildListenerHosts_def by (simp add: Let_def)
qed

lemma rebuildListenerHosts_result:
  assumes "rebuildListenerHosts c = Some (changes, problems, c')"
  shows "\<exists>lh tscs. buildListenerHostsAndTSConfigurations c = Some (lh, tscs) \<and>
     resolvePointers lh tscs = Some (listenerHosts c') \<and>
     listenerProblems c' =
       addProblemsForTSConfigsWithoutActiveListener (listenerHosts c') tscs [] \<and>
     problems = detectChangesInProblems (listenerProblems c') (listenerProblems c)"
  using assms unfolding rebuildListenerHosts_def
  by (auto simp: Let_def split: Option.bind_splits prod.splits)


lemma buildListenerLoop_no_globalConfiguration:
  assumes "globalConfiguration c = None" and "buildListenerLoop c keys st = Some st'"
  shows "fst st' = fst st"
  using assms(2)
proof (induction keys arbitrary: st)
  case Nil
  then show ?case by simp
next
  case (Cons key keys)
  from Cons.prems obtain st1 where
    s: "buildListenerStep c key st = Some st1" and l: "buildListenerLoop c keys st1 = Some st'"
    by (auto split: Option.bind_splits)
  obtain lh tscs where st: "st = (lh, tscs)" by (cases st)
  obtain lh1 tscs1 where st1: "st1 = (lh1, tscs1)" by (cases st1)
  from buildListenerStep_hosts [OF s [unfolded st st1]] assms(1) have "lh1 = lh" by auto
  with Cons.IH [OF l] st st1 show ?case by simp
qed

text \<open>
  Claim C10. The listener rebuild returns, and after it every stored TransportServer
  that is not TLS passthrough and whose pair of listener name and host no
  TransportServer holds (neither itself nor another one) has in \<open>listenerProblems\<close> the
  problem with reason \<open>Rejected\<close>, \<open>IsError = false\<close> and the message that the listener
  does not exist; the rebuild returns this problem unless \<open>listenerProblems\<close> held an
  equal one for the TransportServer before. This does not depend on the listeners of the
  GlobalConfiguration; without a GlobalConfiguration no TransportServer holds a pair.
  The objects are stored under their namespace and name.
\<close>

theorem listener_missing_problem:
  assumes "storedUnderOwnKey TS_ObjectMeta (transportServers c)"
    and "map_of (transportServers c) key = Some ts"
    and "TS_Listener_Protocol ts \<noteq> TLSPassthroughListenerProtocol"
  shows "\<exists>changes problems c'.
     rebuildListenerHosts c = Some (changes, problems, c') \<and>
     (map_of (listenerHosts c') \<lparr>ListenerName = TS_Listener_Name ts, Host = TS_Host ts\<rparr> = None
      \<longrightarrow>
        map_of (listenerProblems c') (getResourceKeyWithKind transportServerKind (TS_ObjectMeta ts)) =
          Some \<lparr>Object = TransportServerObject ts, IsError = False, Reason = EventReasonRejected,
                Message = ''Listener '' @ TS_Listener_Name ts @ '' doesn'' @ [CHR 0x27] @ ''t exist''\<rparr> \<and>
        ((case map_of (listenerProblems c)
                 (getResourceKeyWithKind transportServerKind (TS_ObjectMeta ts)) of
            None \<Rightarrow> True
          | Some oldP \<Rightarrow>
              \<not> compareConfigurationProblems
                  \<lparr>Object = TransportServerObject ts, IsError = False, Reason = EventReasonRejected,
                   Message = ''Listener '' @ TS_Listener_Name ts @ '' doesn'' @ [CHR 0x27] @ ''t exist''\<rparr>
                  oldP)
         \<longrightarrow> \<lparr>Object = TransportServerObject ts, IsError = False, Reason = EventReasonRejected,
               Message = ''Listener '' @ TS_Listener_Name ts @ '' doesn'' @ [CHR 0x27] @ ''t exist''\<rparr>
               \<in> set problems)) \<and>
     (globalConfiguration c = None \<longrightarrow> listenerHosts c' = [])"
proof -
  let ?K = "getResourceKeyWithKind transportServerKind (TS_ObjectMeta ts)"
  let ?P = "\<lparr>Object = TransportServerObject ts, IsError = False, Reason = EventReasonRejected,
             Message = ''Listener '' @ TS_Listener_Name ts @ '' doesn'' @ [CHR 0x27] @ ''t exist''\<rparr>"
  from rebuildListenerHosts_Some obtain changes problems c' where
    r: "rebuildListenerHosts c = Some (changes, problems, c')"
    by (metis prod_cases3)
  from rebuildListenerHosts_result [OF r] obtain lh tscs where
    b: "buildListenerHostsAndTSConfigurations c = Some (lh, tscs)" and
    n: "resolvePointers lh tscs = Some (listenerHosts c')" and
    p: "listenerProblems c' =
          addProblemsForTSConfigsWithoutActiveListener (listenerHosts c') tscs []" and
    e: "problems = detectChangesInProblems (listenerProblems c') (listenerProblems c)"
    by blast
  note t = buildListenerHostsAndTSConfigurations_tsConfigs [OF b]
  from t(2) [OF assms(2,3)] obtain tsc where
    m: "map_of tscs key = Some tsc" and tt: "TSC_TransportServer tsc = ts" by blast
  from m have i: "(key, tsc) \<in> set tscs" by (rule map_of_SomeD)
  have kk: "GetKeyWithKind (TSC tsc) = ?K"
    by (simp add: tt getResourceKeyWithKind_def getResourceKey_def)
  have 1: "map_of (listenerHosts c') \<lparr>ListenerName = TS_Listener_Name ts, Host = TS_Host ts\<rparr> = None
      \<longrightarrow> map_of (listenerProblems c') ?K = Some ?P \<and>
        ((case map_of (listenerProblems c) ?K of
            None \<Rightarrow> True
          | Some oldP \<Rightarrow> \<not> compareConfigurationProblems ?P oldP)
         \<longrightarrow> ?P \<in> set problems)"
  proof
    assume a: "map_of (listenerHosts c') \<lparr>ListenerName = TS_Listener_Name ts, Host = TS_Host ts\<rparr> = None"
    from fold_addProblem_missing [OF tsConfigs_problem_keys [OF assms(1) t(1)] i, of "listenerHosts c'" "[]"]
      a tt kk p
    have q: "map_of (listenerProblems c') ?K = Some ?P"
      by (simp add: addProblemsForTSConfigsWithoutActiveListener_def listenerProblem_def)
    have "(case map_of (listenerProblems c) ?K of
            None \<Rightarrow> True
          | Some oldP \<Rightarrow> \<not> compareConfigurationProblems ?P oldP)
         \<longrightarrow> ?P \<in> set problems"
      unfolding e in_detectChangesInProblems using q by blast
    with q show "map_of (listenerProblems c') ?K = Some ?P \<and>
        ((case map_of (listenerProblems c) ?K of
            None \<Rightarrow> True
          | Some oldP \<Rightarrow> \<not> compareConfigurationProblems ?P oldP)
         \<longrightarrow> ?P \<in> set problems)" by (rule conjI)
  qed
  have 2: "globalConfiguration c = None \<longrightarrow> listenerHosts c' = []"
  proof
    assume g: "globalConfiguration c = None"
    from buildListenerLoop_no_globalConfiguration
           [OF g b [unfolded buildListenerHostsAndTSConfigurations_def]]
    have "lh = []" by simp
    with n show "listenerHosts c' = []" by simp
  qed
  show ?thesis
    by (rule exI [of _ changes], rule exI [of _ problems], rule exI [of _ c'])
       (intro conjI r 1 2)
qed

theorem listener_missing_problem_witness:
  "storedUnderOwnKey TS_ObjectMeta (transportServers c10_c) \<and>
   map_of (transportServers c10_c) ''a/ts'' = Some c10_ts \<and>
   TS_Listener_Protocol c10_ts \<noteq> TLSPassthroughListenerProtocol \<and>
   map_of (listenerMap c10_c) ''dns'' = Some (mkListener ''dns'' 5353 ''UDP'') \<and>
   map_of (listenerHosts (snd (snd (resultOf (rebuildListenerHosts c10_c)))))
     \<lparr>ListenerName = TS_Listener_Name c10_ts, Host = TS_Host c10_ts\<rparr> = None \<and>
   map_of (listenerProblems (snd (snd (resultOf (rebuildListenerHosts c10_c)))))
     ''TransportServer/a/ts'' =
     Some \<lparr>Object = TransportServerObject c10_ts, IsError = False, Reason = ''Rejected'',
           Message = ''Listener dns doesn'' @ [CHR 0x27] @ ''t exist''\<rparr> \<and>
   fst (snd (resultOf (rebuildListenerHosts c10_c))) =
     [\<lparr>Object = TransportServerObject c10_ts, IsError = False, Reason = ''Rejected'',
       Message = ''Listener dns doesn'' @ [CHR 0x27] @ ''t exist''\<rparr>]"
proof -
  have 1: "storedUnderOwnKey TS_ObjectMeta (transportServers c10_c)" by code_simp
  have 2: "map_of (transportServers c10_c) ''a/ts'' = Some c10_ts" by code_simp
  have 3: "TS_Listener_Protocol c10_ts \<noteq> TLSPassthroughListenerProtocol" by code_simp
  have 4: "map_of (listenerMap c10_c) ''dns'' = Some (mkListener ''dns'' 5353 ''UDP'')"
    by code_simp
  have 5: "map_of (listenerHosts (snd (snd (resultOf (rebuildListenerHosts c10_c)))))
     \<lparr>ListenerName = TS_Listener_Name c10_ts, Host = TS_Host c10_ts\<rparr> = None"
    by code_simp
  have 7: "fst (snd (resultOf (rebuildListenerHosts c10_c))) =
     [\<lparr>Object = TransportServerObject c10_ts, IsError = False, Reason = ''Rejected'',
       Message = ''Listener dns doesn'' @ [CHR 0x27] @ ''t exist''\<rparr>]"
    by code_simp
  from listener_missing_problem [OF 1 2 3] obtain changes problems c' where
    r: "rebuildListenerHosts c10_c = Some (changes, problems, c')" and
    i: "map_of (listenerHosts c') \<lparr>ListenerName = TS_Listener_Name c10_ts, Host = TS_Host c10_ts\<rparr> = None
      \<longrightarrow>
        map_of (listenerProblems c') (getResourceKeyWithKind transportServerKind (TS_ObjectMeta c10_ts)) =
          Some \<lparr>Object = TransportServerObject c10_ts, IsError = False, Reason = EventReasonRejected,
                Message = ''Listener '' @ TS_Listener_Name c10_ts @ '' doesn'' @ [CHR 0x27] @ ''t exist''\<rparr> \<and>
        ((case map_of (listenerProblems c10_c)
                 (getResourceKeyWithKind transportServerKind (TS_ObjectMeta c10_ts)) of
            None \<Rightarrow> True
          | Some oldP \<Rightarrow>
              \<not> compareConfigurationProblems
                  \<lparr>Object = TransportServerObject c10_ts, IsError = False, Reason = EventReasonRejected,
                   Message = ''Listener '' @ TS_Listener_Name c10_ts @ '' doesn'' @ [CHR 0x27] @ ''t exist''\<rparr>
                  oldP)
         \<longrightarrow> \<lparr>Object = TransportServerObject c10_ts, IsError = False, Reason = EventReasonRejected,
               Message = ''Listener '' @ TS_Listener_Name c10_ts @ '' doesn'' @ [CHR 0x27] @ ''t exist''\<rparr>
               \<in> set problems)"
    by (elim exE conjE) (rule that)
  have k: "getResourceKeyWithKind transportServerKind (TS_ObjectMeta c10_ts) = ''TransportServer/a/ts''"
    by code_simp
  have n: "TS_Listener_Name c10_ts = ''dns''" by code_simp
  from r have s: "snd (snd (resultOf (rebuildListenerHosts c10_c))) = c'"
    by (simp add: resultOf_def)
  from 5 have h5: "map_of (listenerHosts c') \<lparr>ListenerName = TS_Listener_Name c10_ts, Host = TS_Host c10_ts\<rparr> = None"
    unfolding s .
  from i [rule_format, OF h5, THEN conjunct1] have 6: "map_of (listenerProblems (snd (snd (resultOf (rebuildListenerHosts c10_c)))))
     ''TransportServer/a/ts'' =
     Some \<lparr>Object = TransportServerObject c10_ts, IsError = False, Reason = ''Rejected'',
           Message = ''Listener dns doesn'' @ [CHR 0x27] @ ''t exist''\<rparr>"
    unfolding s k n EventReasonRejected_def by simp
  from 1 2 3 4 5 6 7 show ?thesis by (intro conjI)
qed

end
